theory Spec2Isabelle
  imports Complex_Main "HOL-Library.Sublist" "HOL-Library.Char_ord"
    "HOL-Library.List_Lexorder" "HOL-Library.Multiset"
begin

section \<open>Benchmark report generator (plot\_benchmarks.py)\<close>

text \<open>
  A shallow embedding of \<^verbatim>\<open>src/plot_benchmarks.py\<close>.
  \<^item> Python strings are \<^typ>\<open>string\<close>, lists of 8-bit characters, compared by character
    code as Python compares by code point.
  \<^item> Python floats are IEEE 754 binary64 values (\<open>double\<close>) with signed zeros,
    infinities and NaN; every operation rounds the exact result to the nearest double,
    ties to even, and division by zero raises. The statistics of a result file are taken
    to be floats, as the benchmarking tool writes them.
  \<^item> Python dictionaries are association lists with distinct keys in insertion order.
  \<^item> An uncaught exception is the left summand of a sum type.
  \<^item> The contents of a result file are the parsed entries of its \<^verbatim>\<open>results\<close> array;
    files that do not parse or lack a field are outside the model.
  \<^item> Of the drawing library only the shape check of \<^verbatim>\<open>ax.bar\<close> is modelled, since it
    can raise; a panel is the data the script hands to the library.
\<close>

subsection \<open>Python strings\<close>

text \<open>\<^verbatim>\<open>sub in s\<close>: does \<open>sub\<close> occur as a contiguous substring of \<open>s\<close>.\<close>

primrec str_in :: "string \<Rightarrow> string \<Rightarrow> bool" where
  "str_in sub [] = (sub = [])"
| "str_in sub (c # cs) = (prefix sub (c # cs) \<or> str_in sub cs)"

text \<open>
  \<^verbatim>\<open>s.split(sep, maxsplit)\<close> for a one-character separator: cut at the first
  \<open>maxsplit\<close> occurrences of \<open>sep\<close>, from the left; the last part is the uncut rest.
\<close>

primrec split_max :: "char \<Rightarrow> nat \<Rightarrow> string \<Rightarrow> string list" where
  "split_max sep 0 s = [s]"
| "split_max sep (Suc n) s =
     (if sep \<in> set s
      then takeWhile (\<lambda>c. c \<noteq> sep) s # split_max sep n (tl (dropWhile (\<lambda>c. c \<noteq> sep) s))
      else [s])"

text \<open>
  \<^verbatim>\<open>s.split(sep)\<close> without a limit: a string holds at most \<open>length s\<close> separators,
  so that many cuts are all of them.
\<close>

definition split :: "char \<Rightarrow> string \<Rightarrow> string list" where
  "split sep s = split_max sep (length s) s"

text \<open>\<^verbatim>\<open>s.startswith(p)\<close> is \<^const>\<open>prefix\<close> with the arguments swapped.\<close>

definition startswith :: "string \<Rightarrow> string \<Rightarrow> bool" where
  "startswith s p = prefix p s"

text \<open>
  \<^verbatim>\<open>os.path.basename(p)\<close> (POSIX): the text after the last \<open>/\<close>, the whole path
  when it has none.
\<close>

definition basename :: "string \<Rightarrow> string" where
  "basename p = rev (takeWhile (\<lambda>c. c \<noteq> CHR ''/'') (rev p))"

text \<open>
  \<^verbatim>\<open>os.path.splitext(p)[0]\<close> on a base name: the text before the last dot, provided
  some character before that dot is not a dot; otherwise the whole name.
\<close>

definition splitext_root :: "string \<Rightarrow> string" where
  "splitext_root p =
     (if CHR ''.'' \<in> set p
      then (let root = rev (tl (dropWhile (\<lambda>c. c \<noteq> CHR ''.'') (rev p)))
            in if (\<exists>c \<in> set root. c \<noteq> CHR ''.'') then root else p)
      else p)"

subsection \<open>Python floats\<close>

text \<open>
  A double is \<open>Finite s m e\<close> with the value \<open>(-1)^s * m * 2^e\<close>, an infinity or NaN. The
  operations below yield finite values in the normal form of the format: \<open>m < 2^53\<close>,
  \<open>-1074 \<le> e \<le> 971\<close>, and \<open>2^52 \<le> m\<close> unless \<open>e = -1074\<close>. They read their arguments
  by value.
\<close>

datatype double = Finite bool nat int | Infinity bool | NaN

fun bit_length :: "nat \<Rightarrow> nat" where
  "bit_length n = (if n = 0 then 0 else Suc (bit_length (n div 2)))"

declare bit_length.simps [simp del]

text \<open>The quotient \<open>n / d\<close> rounded to the nearest natural number, ties to even.\<close>

definition round_half_even_div :: "nat \<Rightarrow> nat \<Rightarrow> nat" where
  "round_half_even_div n d =
     (let f = n div d; r = n mod d
      in if 2 * r < d then f else if d < 2 * r then f + 1 else if even f then f else f + 1)"

text \<open>The integer part of the binary logarithm of \<open>p / q\<close>, for positive \<open>p\<close> and \<open>q\<close>.\<close>

definition ilog2_ratio :: "nat \<Rightarrow> nat \<Rightarrow> int" where
  "ilog2_ratio p q =
     (let l = int (bit_length p) - int (bit_length q)
      in if q * 2 ^ nat l \<le> p * 2 ^ nat (- l) then l else l - 1)"

text \<open>
  The double nearest to \<open>(-1)^s * p / q\<close>: 53 significant bits, or fewer below the
  smallest normal number; a magnitude that rounds up to \<open>2^1024\<close> overflows to infinity.
\<close>

definition round_ratio :: "bool \<Rightarrow> nat \<Rightarrow> nat \<Rightarrow> double" where
  "round_ratio s p q =
     (if p = 0 then Finite s 0 (- 1074)
      else (let e = max (ilog2_ratio p q - 52) (- 1074);
                m = round_half_even_div (p * 2 ^ nat (- e)) (q * 2 ^ nat e);
                e' = (if m = 2 ^ 53 then e + 1 else e);
                m' = (if m = 2 ^ 53 then 2 ^ 52 else m)
            in if 971 < e' then Infinity s else Finite s m' e'))"

text \<open>
  The float that the decimal literal \<open>n * 10^(-k)\<close> (with a minus sign when \<open>s\<close>) denotes, in
  the source and in a parsed file, and the float of a small integer operand.
\<close>

definition decimal :: "bool \<Rightarrow> nat \<Rightarrow> nat \<Rightarrow> double" where
  "decimal s n k = round_ratio s n (10 ^ k)"

definition float_of_nat :: "nat \<Rightarrow> double" where
  "float_of_nat n = round_ratio False n 1"

text \<open>Multiplication, division by a divisor that is not zero, addition and subtraction.\<close>

fun fmul :: "double \<Rightarrow> double \<Rightarrow> double" where
  "fmul NaN y = NaN"
| "fmul x NaN = NaN"
| "fmul (Infinity s) (Infinity t) = Infinity (s \<noteq> t)"
| "fmul (Infinity s) (Finite t m e) = (if m = 0 then NaN else Infinity (s \<noteq> t))"
| "fmul (Finite s m e) (Infinity t) = (if m = 0 then NaN else Infinity (s \<noteq> t))"
| "fmul (Finite s m e) (Finite t n f) =
     round_ratio (s \<noteq> t) (m * n * 2 ^ nat (e + f)) (2 ^ nat (- (e + f)))"

fun fdiv :: "double \<Rightarrow> double \<Rightarrow> double" where
  "fdiv NaN y = NaN"
| "fdiv x NaN = NaN"
| "fdiv (Infinity s) (Infinity t) = NaN"
| "fdiv (Infinity s) (Finite t m e) = Infinity (s \<noteq> t)"
| "fdiv (Finite s m e) (Infinity t) = Finite (s \<noteq> t) 0 (- 1074)"
| "fdiv (Finite s m e) (Finite t n f) =
     (if n = 0 then (if m = 0 then NaN else Infinity (s \<noteq> t))
      else round_ratio (s \<noteq> t) (m * 2 ^ nat (e - f)) (n * 2 ^ nat (f - e)))"

definition signed :: "bool \<Rightarrow> nat \<Rightarrow> int" where
  "signed s m = (if s then - int m else int m)"

fun fadd :: "double \<Rightarrow> double \<Rightarrow> double" where
  "fadd NaN y = NaN"
| "fadd x NaN = NaN"
| "fadd (Infinity s) (Infinity t) = (if s = t then Infinity s else NaN)"
| "fadd (Infinity s) (Finite t m e) = Infinity s"
| "fadd (Finite s m e) (Infinity t) = Infinity t"
| "fadd (Finite s m e) (Finite t n f) =
     (let e0 = min e f;
          a = signed s (m * 2 ^ nat (e - e0)) + signed t (n * 2 ^ nat (f - e0))
      in if a = 0 then Finite (s \<and> t) 0 (- 1074)
         else round_ratio (a < 0) (nat \<bar>a\<bar> * 2 ^ nat e0) (2 ^ nat (- e0)))"

fun fneg :: "double \<Rightarrow> double" where
  "fneg (Finite s m e) = Finite (\<not> s) m e"
| "fneg (Infinity s) = Infinity (\<not> s)"
| "fneg NaN = NaN"

definition fsub :: "double \<Rightarrow> double \<Rightarrow> double" where
  "fsub x y = fadd x (fneg y)"

text \<open>\<^verbatim>\<open>x < y\<close> and \<^verbatim>\<open>x == 0\<close>; a comparison with NaN is false.\<close>

fun fless :: "double \<Rightarrow> double \<Rightarrow> bool" where
  "fless NaN y = False"
| "fless x NaN = False"
| "fless (Infinity s) (Infinity t) = (s \<and> \<not> t)"
| "fless (Infinity s) (Finite t m e) = s"
| "fless (Finite s m e) (Infinity t) = (\<not> t)"
| "fless (Finite s m e) (Finite t n f) =
     (signed s (m * 2 ^ nat (e - min e f)) < signed t (n * 2 ^ nat (f - min e f)))"

fun is_zero :: "double \<Rightarrow> bool" where
  "is_zero (Finite s m e) = (m = 0)"
| "is_zero (Infinity s) = False"
| "is_zero NaN = False"

text \<open>The builtin \<^verbatim>\<open>max(a, b)\<close>: the second argument only when it is greater.\<close>

definition py_max :: "double \<Rightarrow> double \<Rightarrow> double" where
  "py_max a b = (if fless a b then b else a)"

text \<open>
  \<^verbatim>\<open>f"{x:.1f}"\<close>: the exact value rounded to one decimal place, ties to even, with a
  minus sign when the sign bit is set and no sign otherwise; \<open>nan\<close> and \<open>inf\<close> for the
  special values.
\<close>

definition digit_char :: "nat \<Rightarrow> char" where
  "digit_char d = ''0123456789'' ! (d mod 10)"

fun str_nat :: "nat \<Rightarrow> string" where
  "str_nat n = (if n < 10 then [digit_char n] else str_nat (n div 10) @ [digit_char (n mod 10)])"

declare str_nat.simps [simp del]

fun format_1f :: "double \<Rightarrow> string" where
  "format_1f NaN = ''nan''"
| "format_1f (Infinity s) = (if s then ''-inf'' else ''inf'')"
| "format_1f (Finite s m e) =
     (let n = round_half_even_div (m * 10 * 2 ^ nat e) (2 ^ nat (- e))
      in (if s then ''-'' else []) @ str_nat (n div 10) @ ''.'' @ [digit_char (n mod 10)])"

subsection \<open>Python dictionaries\<close>

text \<open>
  A dictionary is the list of its items in insertion order. Assigning to a key that is
  present replaces the value where it stands; a new key goes to the end.
\<close>

type_synonym ('k, 'v) pydict = "('k \<times> 'v) list"

definition dict_get :: "('k, 'v) pydict \<Rightarrow> 'k \<Rightarrow> 'v option" where
  "dict_get d k = map_of d k"

fun dict_set :: "('k, 'v) pydict \<Rightarrow> 'k \<Rightarrow> 'v \<Rightarrow> ('k, 'v) pydict" where
  "dict_set [] k v = [(k, v)]"
| "dict_set ((k', v') # d) k v =
     (if k' = k then (k, v) # d else (k', v') # dict_set d k v)"

definition dict_keys :: "('k, 'v) pydict \<Rightarrow> 'k list" where
  "dict_keys d = map fst d"

subsection \<open>Data model\<close>

text \<open>
  The four statistics kept for an implementation, and a measurement entry of a result
  file, which carries a command line besides them.
\<close>

record stats =
  mean :: double
  stddev :: double
  min_stat :: double
  max_stat :: double

record measurement = stats +
  command :: string

type_synonym benchmark_group = "(string, stats) pydict"

type_synonym results = "(string, benchmark_group) pydict"

text \<open>
  A matched result file: its path and the parsed \<^verbatim>\<open>results\<close> array of its contents.
\<close>

type_synonym result_file = "string \<times> measurement list"

datatype error = KeyError | IndexError | ZeroDivisionError | ValueError

subsection \<open>Loading\<close>

text \<open>The inner loop of \<^verbatim>\<open>load_benchmark_results\<close> (lines 23 to 31).\<close>

definition impl_name :: "measurement \<Rightarrow> string" where
  "impl_name result = last (split CHR ''/'' (command result))"

definition stats_of :: "measurement \<Rightarrow> stats" where
  "stats_of result =
     \<lparr>mean = mean result, stddev = stddev result,
      min_stat = min_stat result, max_stat = max_stat result\<rparr>"

definition benchmark_data :: "measurement list \<Rightarrow> benchmark_group" where
  "benchmark_data data =
     foldl (\<lambda>bd result. dict_set bd (impl_name result) (stats_of result)) [] data"

definition benchmark_name :: "string \<Rightarrow> string" where
  "benchmark_name filename = splitext_root (basename filename)"

text \<open>
  \<^verbatim>\<open>load_benchmark_results\<close>, given the files the pattern matched in the order the
  enumeration yields them.
\<close>

definition load_benchmark_results :: "result_file list \<Rightarrow> results" where
  "load_benchmark_results files =
     foldl (\<lambda>res (filename, data).
              dict_set res (benchmark_name filename) (benchmark_data data)) [] files"

subsection \<open>Pairing the two implementations of a group\<close>

text \<open>
  The body of the loop over the implementation names of a group (lines 75 to 79): the
  state is the pair \<open>(sstr_impl, std_impl)\<close>.
\<close>

definition pair_step :: "string option \<times> string option \<Rightarrow> string \<Rightarrow> string option \<times> string option" where
  "pair_step st name =
     (case st of (sstr_impl, std_impl) \<Rightarrow>
        if str_in ''sstr'' name then (Some name, std_impl)
        else if str_in ''std'' name then (sstr_impl, Some name)
        else (sstr_impl, std_impl))"

definition find_impls :: "benchmark_group \<Rightarrow> string option \<times> string option" where
  "find_impls grp = foldl pair_step (None, None) (dict_keys grp)"

text \<open>Truth value of a name or \<^verbatim>\<open>None\<close> in a condition.\<close>

fun truthy :: "string option \<Rightarrow> bool" where
  "truthy None = False"
| "truthy (Some s) = (s \<noteq> [])"

text \<open>
  \<^verbatim>\<open>results[benchmark][impl]['mean']\<close>: indexing a dictionary with \<^verbatim>\<open>None\<close> or with
  an absent key raises \<^verbatim>\<open>KeyError\<close>.
\<close>

fun lookup_mean :: "benchmark_group \<Rightarrow> string option \<Rightarrow> error + double" where
  "lookup_mean grp None = Inl KeyError"
| "lookup_mean grp (Some name) =
     (case dict_get grp name of None \<Rightarrow> Inl KeyError | Some st \<Rightarrow> Inr (mean st))"

subsection \<open>The single-panel procedure\<close>

text \<open>\<^verbatim>\<open>benchmark.split('_', 2)[-1]\<close> (line 69).\<close>

definition x_label :: "string \<Rightarrow> string" where
  "x_label benchmark = last (split_max CHR ''_'' 2 benchmark)"

text \<open>
  The loop over the benchmarks of a panel (lines 68 to 83), with the three lists it
  appends to as the state.
\<close>

fun collect_means ::
  "results \<Rightarrow> string list \<Rightarrow> string list \<times> double list \<times> double list
     \<Rightarrow> error + (string list \<times> double list \<times> double list)" where
  "collect_means res [] acc = Inr acc"
| "collect_means res (benchmark # rest) (x_labels, sstr_means, std_means) =
     (let x_labels' = x_labels @ [x_label benchmark] in
      case dict_get res benchmark of
        None \<Rightarrow> Inl KeyError
      | Some grp \<Rightarrow>
          (case find_impls grp of (sstr_impl, std_impl) \<Rightarrow>
             if truthy sstr_impl \<and> truthy std_impl
             then (case lookup_mean grp sstr_impl of
                     Inl e \<Rightarrow> Inl e
                   | Inr m1 \<Rightarrow>
                       (case lookup_mean grp std_impl of
                          Inl e \<Rightarrow> Inl e
                        | Inr m2 \<Rightarrow>
                            collect_means res rest
                              (x_labels',
                               sstr_means @ [fmul m1 (float_of_nat 1000)],
                               std_means @ [fmul m2 (float_of_nat 1000)])))
             else collect_means res rest (x_labels', sstr_means, std_means)))"

text \<open>
  What one pass of that loop appends to the two series for a benchmark: the two means in
  milliseconds when both implementations are found, nothing otherwise. It is used to
  state what the loop computes.
\<close>

definition paired_ms :: "results \<Rightarrow> string \<Rightarrow> (double \<times> double) option" where
  "paired_ms res benchmark =
     (case dict_get res benchmark of
        None \<Rightarrow> None
      | Some grp \<Rightarrow>
          (case find_impls grp of
             (Some s, Some d) \<Rightarrow>
               (case (dict_get grp s, dict_get grp d) of
                  (Some ss, Some ds) \<Rightarrow>
                    Some (fmul (mean ss) (float_of_nat 1000), fmul (mean ds) (float_of_nat 1000))
                | _ \<Rightarrow> None)
           | _ \<Rightarrow> None))"

text \<open>Line 94: dividing by a zero of either sign raises.\<close>

definition diff_percent :: "double \<Rightarrow> double \<Rightarrow> error + double" where
  "diff_percent s d =
     (if is_zero d then Inl ZeroDivisionError
      else Inr (fmul (fdiv (fsub s d) d) (float_of_nat 100)))"

datatype color = Green | Red

record annotation =
  text_x :: nat
  text_y :: double
  text_s :: string
  text_color :: color

text \<open>
  The \<^verbatim>\<open>ax.text\<close> call of lines 95 to 98 for cluster \<open>i\<close> with bar heights \<open>s\<close> and
  \<open>d\<close> and the difference \<open>diff\<close>.
\<close>

definition text_call :: "nat \<Rightarrow> double \<Rightarrow> double \<Rightarrow> double \<Rightarrow> annotation" where
  "text_call i s d diff =
     \<lparr>text_x = i,
      text_y = fadd (py_max s d) (decimal False 5 2),
      text_s = format_1f diff @ ''%'',
      text_color = (if fless diff (float_of_nat 0) then Green else Red)\<rparr>"

text \<open>The loop over \<^verbatim>\<open>range(len(sstr_means))\<close> (lines 93 to 98).\<close>

fun annotate :: "double list \<Rightarrow> double list \<Rightarrow> nat list \<Rightarrow> error + annotation list" where
  "annotate sstr_means std_means [] = Inr []"
| "annotate sstr_means std_means (i # rest) =
     (if length sstr_means \<le> i \<or> length std_means \<le> i then Inl IndexError
      else case diff_percent (sstr_means ! i) (std_means ! i) of
             Inl e \<Rightarrow> Inl e
           | Inr diff \<Rightarrow>
               (case annotate sstr_means std_means rest of
                  Inl e \<Rightarrow> Inl e
                | Inr texts \<Rightarrow>
                    Inr (text_call i (sstr_means ! i) (std_means ! i) diff # texts)))"

text \<open>
  \<^verbatim>\<open>ax.bar(x, height, ...)\<close> (lines 89 and 90) broadcasts the positions and the heights
  to one shape and raises \<^verbatim>\<open>ValueError\<close> when that is impossible: two lengths fit when
  they are equal or one of them is 1.
\<close>

definition broadcastable :: "nat \<Rightarrow> nat \<Rightarrow> bool" where
  "broadcastable n m = (n = m \<or> n = 1 \<or> m = 1)"

definition bar_call :: "nat list \<Rightarrow> double list \<Rightarrow> error + double list" where
  "bar_call x height =
     (if broadcastable (length x) (length height) then Inr height else Inl ValueError)"

text \<open>What is handed to one axis.\<close>

record panel =
  ax_title :: string
  ax_xticks :: "nat list"
  ax_xticklabels :: "string list"
  ax_bar_sstr :: "double list"
  ax_bar_std :: "double list"
  ax_texts :: "annotation list"

definition plot_benchmark_group :: "results \<Rightarrow> string list \<Rightarrow> string \<Rightarrow> error + panel" where
  "plot_benchmark_group res benchmarks title =
     (case collect_means res benchmarks ([], [], []) of
        Inl e \<Rightarrow> Inl e
      | Inr (x_labels, sstr_means, std_means) \<Rightarrow>
          (let x = [0 ..< length x_labels] in
           case bar_call x sstr_means of
             Inl e \<Rightarrow> Inl e
           | Inr bars_sstr \<Rightarrow>
               (case bar_call x std_means of
                  Inl e \<Rightarrow> Inl e
                | Inr bars_std \<Rightarrow>
                    (case annotate sstr_means std_means [0 ..< length sstr_means] of
                       Inl e \<Rightarrow> Inl e
                     | Inr texts \<Rightarrow>
                         Inr \<lparr>ax_title = title,
                              ax_xticks = x,
                              ax_xticklabels = x_labels,
                              ax_bar_sstr = bars_sstr,
                              ax_bar_std = bars_std,
                              ax_texts = texts\<rparr>))))"

subsection \<open>The comparison plot\<close>

text \<open>Lines 39 to 44: the sorted group names and the three category lists.\<close>

definition sorted_benchmarks :: "results \<Rightarrow> string list" where
  "sorted_benchmarks res = sort (dict_keys res)"

definition copy_benchmarks :: "results \<Rightarrow> string list" where
  "copy_benchmarks res = filter (\<lambda>b. startswith b ''results_copy'') (sorted_benchmarks res)"

definition append_benchmarks :: "results \<Rightarrow> string list" where
  "append_benchmarks res = filter (\<lambda>b. startswith b ''results_append'') (sorted_benchmarks res)"

definition format_benchmarks :: "results \<Rightarrow> string list" where
  "format_benchmarks res = filter (\<lambda>b. startswith b ''results_format'') (sorted_benchmarks res)"

text \<open>
  \<^verbatim>\<open>create_comparison_plot\<close>: the three panels from top to bottom and the line
  printed after saving.
\<close>

definition create_comparison_plot :: "results \<Rightarrow> string \<Rightarrow> error + (panel list \<times> string)" where
  "create_comparison_plot res output_filename =
     (case plot_benchmark_group res (copy_benchmarks res) ''String Copy Performance'' of
        Inl e \<Rightarrow> Inl e
      | Inr p0 \<Rightarrow>
          (case plot_benchmark_group res (append_benchmarks res) ''String Append Performance'' of
             Inl e \<Rightarrow> Inl e
           | Inr p1 \<Rightarrow>
               (case plot_benchmark_group res (format_benchmarks res) ''String Format Performance'' of
                  Inl e \<Rightarrow> Inl e
                | Inr p2 \<Rightarrow> Inr ([p0, p1, p2], ''Plot saved to '' @ output_filename))))"

subsection \<open>Reading aids for the pairing rule\<close>




section \<open>Verification\<close>

subsection \<open>Facts about floats\<close>

lemmas double_eval =
  decimal_def float_of_nat_def round_ratio_def ilog2_ratio_def bit_length.simps
  round_half_even_div_def Let_def signed_def fsub_def py_max_def str_nat.simps digit_char_def

lemma round_ratio_zero: "round_ratio s 0 q = Finite s 0 (- 1074)"
  by (simp add: round_ratio_def)

lemma float_of_nat_0: "float_of_nat 0 = Finite False 0 (- 1074)"
  by (simp add: float_of_nat_def round_ratio_zero)

lemma float_of_nat_100: "float_of_nat 100 = Finite False 7036874417766400 (- 46)"
  by (simp add: double_eval)

lemma float_of_nat_1000: "float_of_nat 1000 = Finite False 8796093022208000 (- 43)"
  by (simp add: double_eval)

lemma float_of_nat_1: "float_of_nat 1 = Finite False 4503599627370496 (- 52)"
  by (simp add: double_eval)

lemma float_of_nat_2: "float_of_nat 2 = Finite False 4503599627370496 (- 51)"
  by (simp add: double_eval)

lemma float_of_nat_50: "float_of_nat 50 = Finite False 7036874417766400 (- 47)"
  by (simp add: double_eval)

lemma decimal_0_05: "decimal False 5 2 = Finite False 7205759403792794 (- 57)"
  by (simp add: double_eval)

lemma decimal_0_001: "decimal False 1 3 = Finite False 4611686018427388 (- 62)"
  by (simp add: double_eval)

lemma decimal_0_002: "decimal False 2 3 = Finite False 4611686018427388 (- 61)"
  by (simp add: double_eval)

lemmas double_values =
  float_of_nat_0 float_of_nat_1 float_of_nat_2 float_of_nat_50 float_of_nat_100 float_of_nat_1000
  decimal_0_05 decimal_0_001 decimal_0_002

lemma ms_0_001:
  "fmul (decimal False 1 3) (float_of_nat 1000) = Finite False 4503599627370496 (- 52)"
  unfolding double_values by (simp add: double_eval)

lemma ms_0_002:
  "fmul (decimal False 2 3) (float_of_nat 1000) = Finite False 4503599627370496 (- 51)"
  unfolding double_values by (simp add: double_eval)

lemma is_zero_cases: "is_zero x \<Longrightarrow> \<exists>s e. x = Finite s 0 e"
  by (cases x) auto

lemma is_zero_fmul_1000: "is_zero x \<Longrightarrow> is_zero (fmul x (float_of_nat 1000))"
  by (auto dest!: is_zero_cases simp: float_of_nat_1000 round_ratio_zero)

lemma fsub_self_Finite: "fsub (Finite s m e) (Finite s m e) = Finite False 0 (- 1074)"
  by (simp add: fsub_def signed_def)

lemma equal_bars_not_negative:
  assumes "\<not> is_zero d"
  shows "\<not> fless (fmul (fdiv (fsub d d) d) (float_of_nat 100)) (float_of_nat 0)"
proof (cases d)
  case (Finite s m e)
  with assms have m: "m \<noteq> 0" by simp
  have "fdiv (fsub d d) d = Finite s 0 (- 1074)"
    using m by (simp add: Finite fsub_self_Finite round_ratio_zero)
  then have "fmul (fdiv (fsub d d) d) (float_of_nat 100) = Finite s 0 (- 1074)"
    by (simp add: float_of_nat_100 round_ratio_zero)
  then show ?thesis by (simp add: float_of_nat_0 signed_def)
next
  case (Infinity s)
  then show ?thesis by (simp add: fsub_def float_of_nat_100)
next
  case NaN
  then show ?thesis by (simp add: fsub_def)
qed

subsection \<open>Facts about strings\<close>

lemma str_in_sublist: "str_in sub s \<longleftrightarrow> sublist sub s"
  by (induction s) (simp_all add: sublist_Cons_right)

lemma str_in_iff: "str_in sub s \<longleftrightarrow> (\<exists>p q. s = p @ sub @ q)"
  by (simp add: str_in_sublist sublist_def)

lemma str_in_nonempty: "str_in sub s \<Longrightarrow> sub \<noteq> [] \<Longrightarrow> s \<noteq> []"
  by (cases s) auto

lemma split_max_nonempty: "split_max sep n s \<noteq> []"
  by (cases n) auto

lemma length_split_max: "length (split_max sep n s) \<le> Suc n"
  by (induction n arbitrary: s) auto

lemma split_max_cut:
  assumes "sep \<notin> set p"
  shows "split_max sep (Suc n) (p @ sep # r) = p # split_max sep n r"
proof -
  have all: "\<And>x. x \<in> set p \<Longrightarrow> x \<noteq> sep" using assms by auto
  have "takeWhile (\<lambda>c. c \<noteq> sep) (p @ sep # r) = p"
    using all by (simp add: takeWhile_append2)
  moreover have "dropWhile (\<lambda>c. c \<noteq> sep) (p @ sep # r) = sep # r"
    using all by (simp add: dropWhile_append2)
  ultimately show ?thesis by simp
qed

lemma split_max_two:
  assumes "sep \<notin> set p" and "sep \<notin> set q"
  shows "split_max sep 2 (p @ sep # q @ sep # r) = [p, q, r]"
proof -
  have "split_max sep (Suc (Suc 0)) (p @ sep # q @ sep # r) = p # split_max sep (Suc 0) (q @ sep # r)"
    using assms(1) by (rule split_max_cut)
  also have "split_max sep (Suc 0) (q @ sep # r) = q # split_max sep 0 r"
    using assms(2) by (rule split_max_cut)
  finally show ?thesis by (simp add: numeral_2_eq_2)
qed

lemma last_split_max:
  "length s \<le> n \<Longrightarrow> last (split_max sep n s) = rev (takeWhile (\<lambda>c. c \<noteq> sep) (rev s))"
proof (induction n arbitrary: s)
  case 0
  then show ?case by simp
next
  case (Suc n)
  show ?case
  proof (cases "sep \<in> set s")
    case False
    then have tw: "takeWhile (\<lambda>c. c \<noteq> sep) (rev s) = rev s"
      by (auto simp: takeWhile_eq_all_conv)
    have "last (split_max sep (Suc n) s) = s" using False by simp
    then show ?thesis unfolding tw by simp
  next
    case True
    define a where "a = takeWhile (\<lambda>c. c \<noteq> sep) s"
    define r where "r = tl (dropWhile (\<lambda>c. c \<noteq> sep) s)"
    have hd: "dropWhile (\<lambda>c. c \<noteq> sep) s \<noteq> []" using True by (simp add: dropWhile_eq_Nil_conv)
    then have "hd (dropWhile (\<lambda>c. c \<noteq> sep) s) = sep"
      using hd_dropWhile[of "\<lambda>c. c \<noteq> sep" s] by simp
    with hd have dw: "dropWhile (\<lambda>c. c \<noteq> sep) s = sep # r"
      unfolding r_def by (cases "dropWhile (\<lambda>c. c \<noteq> sep) s") auto
    have s: "s = a @ sep # r"
      using takeWhile_dropWhile_id[of "\<lambda>c. c \<noteq> sep" s] dw a_def by simp
    have "length r \<le> n" using Suc.prems s by simp
    then have IH: "last (split_max sep n r) = rev (takeWhile (\<lambda>c. c \<noteq> sep) (rev r))"
      by (rule Suc.IH)
    have "last (split_max sep (Suc n) s) = last (split_max sep n r)"
      using True by (simp add: r_def split_max_nonempty)
    moreover have "takeWhile (\<lambda>c. c \<noteq> sep) (rev s) = takeWhile (\<lambda>c. c \<noteq> sep) (rev r)"
    proof (cases "sep \<in> set r")
      case True
      then have "takeWhile (\<lambda>c. c \<noteq> sep) (rev r @ sep # rev a) = takeWhile (\<lambda>c. c \<noteq> sep) (rev r)"
        by (intro takeWhile_append1[of sep]) auto
      then show ?thesis unfolding s by simp
    next
      case False
      then have all: "\<And>x. x \<in> set (rev r) \<Longrightarrow> x \<noteq> sep" by auto
      have "takeWhile (\<lambda>c. c \<noteq> sep) (rev r @ sep # rev a) =
              rev r @ takeWhile (\<lambda>c. c \<noteq> sep) (sep # rev a)"
        using all by (rule takeWhile_append2)
      then have X: "takeWhile (\<lambda>c. c \<noteq> sep) (rev s) = rev r"
        unfolding s by simp
      have Y: "takeWhile (\<lambda>c. c \<noteq> sep) (rev r) = rev r"
        using all by (simp add: takeWhile_eq_all_conv)
      show ?thesis by (rule trans[OF X Y[symmetric]])
    qed
    ultimately show ?thesis using IH by simp
  qed
qed

lemma impl_name_after_last_slash:
  "impl_name e = rev (takeWhile (\<lambda>c. c \<noteq> CHR ''/'') (rev (command e)))"
  by (simp add: impl_name_def split_def last_split_max)

subsection \<open>Facts about dictionaries and loading\<close>

lemma dict_get_dict_set:
  "dict_get (dict_set d k v) k' = (if k' = k then Some v else dict_get d k')"
  by (induction d) (auto simp: dict_get_def)

lemma dict_keys_dict_set:
  "dict_keys (dict_set d k v) = (if k \<in> set (dict_keys d) then dict_keys d else dict_keys d @ [k])"
  by (induction d) (force simp: dict_keys_def)+

lemma dict_get_None_iff: "dict_get d k = None \<longleftrightarrow> k \<notin> set (dict_keys d)"
  by (simp add: dict_get_def dict_keys_def map_of_eq_None_iff)

lemma foldl_dict_set_snoc:
  "foldl (\<lambda>d x. dict_set d (kf x) (vf x)) d0 (xs @ [x]) =
     dict_set (foldl (\<lambda>d x. dict_set d (kf x) (vf x)) d0 xs) (kf x) (vf x)"
  by simp

lemma dict_keys_foldl:
  "dict_keys (foldl (\<lambda>d x. dict_set d (kf x) (vf x)) [] xs) = rev (remdups (rev (map kf xs)))"
proof (induction xs rule: rev_induct)
  case Nil
  then show ?case by (simp add: dict_keys_def)
next
  case (snoc x xs)
  have "set (rev (remdups (rev (map kf xs)))) = kf ` set xs" by simp
  with snoc show ?case
    by (simp add: dict_keys_dict_set)
qed

lemma dict_get_foldl:
  "dict_get (foldl (\<lambda>d x. dict_set d (kf x) (vf x)) d0 xs) k =
     (case find (\<lambda>x. kf x = k) (rev xs) of None \<Rightarrow> dict_get d0 k | Some x \<Rightarrow> Some (vf x))"
  by (induction xs rule: rev_induct) (auto simp: dict_get_dict_set)


lemma distinct_dict_keys_foldl:
  "distinct (dict_keys (foldl (\<lambda>d x. dict_set d (kf x) (vf x)) [] xs))"
  by (simp add: dict_keys_foldl)

lemma dict_keys_benchmark_data:
  "dict_keys (benchmark_data data) = rev (remdups (rev (map impl_name data)))"
  unfolding benchmark_data_def by (rule dict_keys_foldl)

lemma dict_get_benchmark_data:
  "dict_get (benchmark_data data) k =
     (case find (\<lambda>e. impl_name e = k) (rev data) of None \<Rightarrow> None | Some e \<Rightarrow> Some (stats_of e))"
  unfolding benchmark_data_def dict_get_foldl by (simp add: dict_get_def split: option.split)

lemma load_as_foldl:
  "load_benchmark_results files =
     foldl (\<lambda>d x. dict_set d (benchmark_name (fst x)) (benchmark_data (snd x))) [] files"
proof -
  have "(\<lambda>res (filename, data). dict_set res (benchmark_name filename) (benchmark_data data)) =
        (\<lambda>d x. dict_set d (benchmark_name (fst x)) (benchmark_data (snd x)))"
    by (simp add: fun_eq_iff case_prod_beta)
  then show ?thesis by (simp add: load_benchmark_results_def)
qed

subsection \<open>Facts about the pairing loop\<close>

lemma foldl_pair_step_fst:
  "fst (foldl pair_step (s, d) ks) =
     (case filter (str_in ''sstr'') ks of [] \<Rightarrow> s | n # ns \<Rightarrow> Some (last (n # ns)))"
  by (induction ks arbitrary: s d) (auto simp: pair_step_def split: list.splits)

lemma foldl_pair_step_snd:
  "snd (foldl pair_step (s, d) ks) =
     (case filter (\<lambda>n. \<not> str_in ''sstr'' n \<and> str_in ''std'' n) ks of
        [] \<Rightarrow> d | n # ns \<Rightarrow> Some (last (n # ns)))"
  by (induction ks arbitrary: s d) (auto simp: pair_step_def split: list.splits)

lemma find_append_none:
  "\<forall>x \<in> set xs. \<not> P x \<Longrightarrow> find P (xs @ ys) = find P ys"
  by (induction xs) auto

lemma find_rev_last:
  assumes "j < length xs" and "P (xs ! j)"
    and "\<forall>k. j < k \<and> k < length xs \<longrightarrow> \<not> P (xs ! k)"
  shows "find P (rev xs) = Some (xs ! j)"
proof -
  have xs: "xs = take j xs @ xs ! j # drop (Suc j) xs"
    using assms(1) by (rule id_take_nth_drop)
  have none: "\<forall>x \<in> set (rev (drop (Suc j) xs)). \<not> P x"
  proof
    fix x assume "x \<in> set (rev (drop (Suc j) xs))"
    then obtain m where "m < length (drop (Suc j) xs)" "x = drop (Suc j) xs ! m"
      by (auto simp: in_set_conv_nth)
    then have "x = xs ! (Suc j + m)" "Suc j + m < length xs" by auto
    with assms(3) show "\<not> P x" by auto
  qed
  have "rev xs = rev (drop (Suc j) xs) @ xs ! j # rev (take j xs)"
    by (subst xs) simp
  then have "find P (rev xs) = find P (xs ! j # rev (take j xs))"
    using find_append_none [OF none] by simp
  then show ?thesis using assms(2) by simp
qed

subsection \<open>What the single-panel procedure computes\<close>

lemma last_filter_in: "filter P xs = n # ns \<Longrightarrow> last (n # ns) \<in> set xs \<and> P (last (n # ns))"
proof -
  assume a: "filter P xs = n # ns"
  have "last (n # ns) \<in> set (n # ns)" by (rule last_in_set) simp
  then have "last (n # ns) \<in> set (filter P xs)" using a by simp
  then show ?thesis by simp
qed

lemma find_impls_fst_Some:
  assumes "find_impls g = (Some s, d)"
  shows "s \<in> set (dict_keys g) \<and> str_in ''sstr'' s"
proof -
  have "fst (find_impls g) = Some s" using assms by simp
  then show ?thesis
    unfolding find_impls_def foldl_pair_step_fst
    by (auto split: list.splits dest!: last_filter_in)
qed

lemma find_impls_snd_Some:
  assumes "find_impls g = (s, Some d)"
  shows "d \<in> set (dict_keys g) \<and> str_in ''std'' d"
proof -
  have "snd (find_impls g) = Some d" using assms by simp
  then show ?thesis
    unfolding find_impls_def foldl_pair_step_snd
    by (auto split: list.splits dest!: last_filter_in)
qed

lemma dict_get_Some_ex: "k \<in> set (dict_keys d) \<Longrightarrow> \<exists>v. dict_get d k = Some v"
  using dict_get_None_iff [of d k] by (cases "dict_get d k") auto

lemma collect_means_step_paired:
  assumes "dict_get res b = Some g" and "find_impls g = (Some s, Some d)"
  shows "\<exists>ss ds. dict_get g s = Some ss \<and> dict_get g d = Some ds \<and>
           paired_ms res b =
             Some (fmul (mean ss) (float_of_nat 1000), fmul (mean ds) (float_of_nat 1000)) \<and>
           collect_means res (b # bs) (xl, sm, dm) =
             collect_means res bs
               (xl @ [x_label b], sm @ [fmul (mean ss) (float_of_nat 1000)],
                dm @ [fmul (mean ds) (float_of_nat 1000)])"
proof -
  from find_impls_fst_Some [OF assms(2)]
  have s1: "s \<in> set (dict_keys g)" and s2: "str_in ''sstr'' s" by simp_all
  from find_impls_snd_Some [OF assms(2)]
  have d1: "d \<in> set (dict_keys g)" and d2: "str_in ''std'' d" by simp_all
  have s3: "s \<noteq> []" using str_in_nonempty [OF s2] by simp
  have d3: "d \<noteq> []" using str_in_nonempty [OF d2] by simp
  from dict_get_Some_ex [OF s1] obtain ss where ss: "dict_get g s = Some ss" ..
  from dict_get_Some_ex [OF d1] obtain ds where ds: "dict_get g d = Some ds" ..
  have p: "paired_ms res b =
             Some (fmul (mean ss) (float_of_nat 1000), fmul (mean ds) (float_of_nat 1000))"
    using assms ss ds by (simp add: paired_ms_def)
  have c: "collect_means res (b # bs) (xl, sm, dm) =
             collect_means res bs
               (xl @ [x_label b], sm @ [fmul (mean ss) (float_of_nat 1000)],
                dm @ [fmul (mean ds) (float_of_nat 1000)])"
    using assms ss ds s3 d3 by simp
  show ?thesis
    by (intro exI [of _ ss] exI [of _ ds] conjI) (fact ss ds p c)+
qed

lemma collect_means_step_skipped:
  assumes "dict_get res b = Some g" and "find_impls g = (s, d)" and "s = None \<or> d = None"
  shows "paired_ms res b = None \<and>
         collect_means res (b # bs) (xl, sm, dm) = collect_means res bs (xl @ [x_label b], sm, dm)"
  using assms by (auto simp: paired_ms_def split: option.splits)

lemma collect_means_char:
  "collect_means res bs (xl, sm, dm) =
     (if set bs \<subseteq> set (dict_keys res)
      then Inr (xl @ map x_label bs,
                sm @ map fst (List.map_filter (paired_ms res) bs),
                dm @ map snd (List.map_filter (paired_ms res) bs))
      else Inl KeyError)"
proof (induction bs arbitrary: xl sm dm)
  case Nil
  then show ?case by (simp add: map_filter_simps)
next
  case (Cons b bs)
  show ?case
  proof (cases "dict_get res b")
    case None
    then have "b \<notin> set (dict_keys res)" by (simp add: dict_get_None_iff)
    with None show ?thesis by simp
  next
    case (Some g)
    then have b: "b \<in> set (dict_keys res)"
      using dict_get_None_iff [of res b] by auto
    obtain s d where sd: "find_impls g = (s, d)" by (cases "find_impls g")
    show ?thesis
    proof (cases "s = None \<or> d = None")
      case True
      from collect_means_step_skipped [OF Some sd True, of bs xl sm dm]
      have p: "paired_ms res b = None"
        and e: "collect_means res (b # bs) (xl, sm, dm) =
                  collect_means res bs (xl @ [x_label b], sm, dm)"
        by simp_all
      show ?thesis unfolding e Cons.IH using b p by (simp add: map_filter_simps)
    next
      case False
      then obtain s' d' where "s = Some s'" "d = Some d'" by auto
      with sd have sd': "find_impls g = (Some s', Some d')" by simp
      from collect_means_step_paired [OF Some sd', of bs xl sm dm]
      obtain ss ds :: stats where
        p: "paired_ms res b =
              Some (fmul (mean ss) (float_of_nat 1000), fmul (mean ds) (float_of_nat 1000))"
        and e: "collect_means res (b # bs) (xl, sm, dm) =
                  collect_means res bs
                    (xl @ [x_label b], sm @ [fmul (mean ss) (float_of_nat 1000)],
                     dm @ [fmul (mean ds) (float_of_nat 1000)])"
        by blast
      show ?thesis unfolding e Cons.IH using b p by (simp add: map_filter_simps)
    qed
  qed
qed

lemma annotate_char:
  assumes "\<forall>i \<in> set ixs. i < length sm \<and> i < length dm"
  shows "annotate sm dm ixs =
     (if \<exists>i \<in> set ixs. is_zero (dm ! i) then Inl ZeroDivisionError
      else Inr (map (\<lambda>i. text_call i (sm ! i) (dm ! i)
                          (fmul (fdiv (fsub (sm ! i) (dm ! i)) (dm ! i)) (float_of_nat 100))) ixs))"
  using assms
proof (induction ixs)
  case Nil
  then show ?case by simp
next
  case (Cons i ixs)
  then have i: "\<not> (length sm \<le> i \<or> length dm \<le> i)" by auto
  have IH: "annotate sm dm ixs =
     (if \<exists>i \<in> set ixs. is_zero (dm ! i) then Inl ZeroDivisionError
      else Inr (map (\<lambda>i. text_call i (sm ! i) (dm ! i)
                          (fmul (fdiv (fsub (sm ! i) (dm ! i)) (dm ! i)) (float_of_nat 100))) ixs))"
    using Cons by simp
  show ?case
    using i by (simp add: IH diff_percent_def)
qed

lemma plot_benchmark_group_char:
  assumes "set bs \<subseteq> set (dict_keys res)"
  defines "ps \<equiv> List.map_filter (paired_ms res) bs"
  shows "plot_benchmark_group res bs t =
     (if \<not> broadcastable (length bs) (length ps) then Inl ValueError
      else if \<exists>d \<in> snd ` set ps. is_zero d then Inl ZeroDivisionError
      else Inr \<lparr>ax_title = t,
                ax_xticks = [0 ..< length bs],
                ax_xticklabels = map x_label bs,
                ax_bar_sstr = map fst ps,
                ax_bar_std = map snd ps,
                ax_texts = map (\<lambda>i. text_call i (fst (ps ! i)) (snd (ps ! i))
                                    (fmul (fdiv (fsub (fst (ps ! i)) (snd (ps ! i))) (snd (ps ! i)))
                                       (float_of_nat 100)))
                            [0 ..< length ps]\<rparr>)"
proof -
  have c: "collect_means res bs ([], [], []) = Inr (map x_label bs, map fst ps, map snd ps)"
    using assms(1) by (simp add: collect_means_char ps_def)
  have b1: "bar_call [0 ..< length (map x_label bs)] (map fst ps) =
      (if broadcastable (length bs) (length ps) then Inr (map fst ps) else Inl ValueError)"
    by (simp add: bar_call_def)
  have b2: "bar_call [0 ..< length (map x_label bs)] (map snd ps) =
      (if broadcastable (length bs) (length ps) then Inr (map snd ps) else Inl ValueError)"
    by (simp add: bar_call_def)
  have a: "annotate (map fst ps) (map snd ps) [0 ..< length (map fst ps)] =
     (if \<exists>i \<in> set [0 ..< length (map fst ps)]. is_zero (map snd ps ! i) then Inl ZeroDivisionError
      else Inr (map (\<lambda>i. text_call i (map fst ps ! i) (map snd ps ! i)
                 (fmul (fdiv (fsub (map fst ps ! i) (map snd ps ! i)) (map snd ps ! i))
                    (float_of_nat 100)))
                  [0 ..< length (map fst ps)]))"
    by (rule annotate_char) simp
  have z: "(\<exists>i \<in> set [0 ..< length (map fst ps)]. is_zero (map snd ps ! i)) \<longleftrightarrow>
           (\<exists>d \<in> snd ` set ps. is_zero d)"
  proof
    assume "\<exists>i \<in> set [0 ..< length (map fst ps)]. is_zero (map snd ps ! i)"
    then obtain i where i: "i < length ps" "is_zero (snd (ps ! i))" by auto
    from i(1) have "snd (ps ! i) \<in> snd ` set ps" by simp
    from this i(2) show "\<exists>d \<in> snd ` set ps. is_zero d" by (rule rev_bexI)
  next
    assume "\<exists>d \<in> snd ` set ps. is_zero d"
    then obtain x where "x \<in> set ps" "is_zero (snd x)" by auto
    then obtain i where "i < length ps" "ps ! i = x" by (auto simp: in_set_conv_nth)
    with \<open>is_zero (snd x)\<close>
    show "\<exists>i \<in> set [0 ..< length (map fst ps)]. is_zero (map snd ps ! i)" by auto
  qed
  have m: "map (\<lambda>i. text_call i (map fst ps ! i) (map snd ps ! i)
                 (fmul (fdiv (fsub (map fst ps ! i) (map snd ps ! i)) (map snd ps ! i))
                    (float_of_nat 100)))
                  [0 ..< length (map fst ps)] =
           map (\<lambda>i. text_call i (fst (ps ! i)) (snd (ps ! i))
                                    (fmul (fdiv (fsub (fst (ps ! i)) (snd (ps ! i))) (snd (ps ! i)))
                                       (float_of_nat 100)))
                            [0 ..< length ps]"
    by simp
  show ?thesis
  proof (cases "broadcastable (length bs) (length ps)")
    case False
    with c b1 show ?thesis by (simp add: plot_benchmark_group_def)
  next
    case True
    show ?thesis
    proof (cases "\<exists>d \<in> snd ` set ps. is_zero d")
      case Z: True
      with a z
      have "annotate (map fst ps) (map snd ps) [0 ..< length (map fst ps)] = Inl ZeroDivisionError"
        by simp
      with c b1 b2 True Z show ?thesis by (simp add: plot_benchmark_group_def)
    next
      case Z: False
      with a z m have "annotate (map fst ps) (map snd ps) [0 ..< length (map fst ps)] =
        Inr (map (\<lambda>i. text_call i (fst (ps ! i)) (snd (ps ! i))
                                    (fmul (fdiv (fsub (fst (ps ! i)) (snd (ps ! i))) (snd (ps ! i)))
                                       (float_of_nat 100)))
                            [0 ..< length ps])"
        by simp
      with c b1 b2 True Z show ?thesis by (simp add: plot_benchmark_group_def)
    qed
  qed
qed

lemma plot_Inr_keys:
  assumes "plot_benchmark_group res bs t = Inr p"
  shows "set bs \<subseteq> set (dict_keys res)"
proof (rule ccontr)
  assume "\<not> set bs \<subseteq> set (dict_keys res)"
  then have "collect_means res bs ([], [], []) = Inl KeyError"
    by (simp add: collect_means_char)
  then have "plot_benchmark_group res bs t = Inl KeyError"
    by (simp add: plot_benchmark_group_def)
  with assms show False by simp
qed

lemma plot_not_keys:
  "\<not> set bs \<subseteq> set (dict_keys res) \<Longrightarrow> plot_benchmark_group res bs t = Inl KeyError"
  by (simp add: plot_benchmark_group_def collect_means_char)

lemma plot_Inr_fields:
  assumes "plot_benchmark_group res bs t = Inr p"
  defines "ps \<equiv> List.map_filter (paired_ms res) bs"
  shows "\<forall>d \<in> snd ` set ps. \<not> is_zero d"
    and "ax_title p = t"
    and "ax_xticks p = [0 ..< length bs]"
    and "ax_xticklabels p = map x_label bs"
    and "ax_bar_sstr p = map fst ps"
    and "ax_bar_std p = map snd ps"
    and "ax_texts p = map (\<lambda>i. text_call i (fst (ps ! i)) (snd (ps ! i))
                                    (fmul (fdiv (fsub (fst (ps ! i)) (snd (ps ! i))) (snd (ps ! i)))
                                       (float_of_nat 100)))
                            [0 ..< length ps]"
    and "broadcastable (length bs) (length ps)"
proof -
  note k = plot_Inr_keys [OF assms(1)]
  note c = plot_benchmark_group_char [OF k, of t, folded ps_def]
  show b: "broadcastable (length bs) (length ps)"
  proof (rule ccontr)
    assume "\<not> broadcastable (length bs) (length ps)"
    with c have "plot_benchmark_group res bs t = Inl ValueError" by simp
    with assms(1) show False by simp
  qed
  show z: "\<forall>d \<in> snd ` set ps. \<not> is_zero d"
  proof (rule ccontr)
    assume "\<not> (\<forall>d \<in> snd ` set ps. \<not> is_zero d)"
    then have "\<exists>d \<in> snd ` set ps. is_zero d" by simp
    with c b have "plot_benchmark_group res bs t = Inl ZeroDivisionError" by simp
    with assms(1) show False by simp
  qed
  then have z': "\<not> (\<exists>d \<in> snd ` set ps. is_zero d)" by simp
  from c b z' assms(1) have p: "p = \<lparr>ax_title = t,
                ax_xticks = [0 ..< length bs],
                ax_xticklabels = map x_label bs,
                ax_bar_sstr = map fst ps,
                ax_bar_std = map snd ps,
                ax_texts = map (\<lambda>i. text_call i (fst (ps ! i)) (snd (ps ! i))
                                    (fmul (fdiv (fsub (fst (ps ! i)) (snd (ps ! i))) (snd (ps ! i)))
                                       (float_of_nat 100)))
                            [0 ..< length ps]\<rparr>"
    by simp
  show "ax_title p = t" by (subst p) simp
  show "ax_xticks p = [0 ..< length bs]" by (subst p) simp
  show "ax_xticklabels p = map x_label bs" by (subst p) simp
  show "ax_bar_sstr p = map fst ps" by (subst p) simp
  show "ax_bar_std p = map snd ps" by (subst p) simp
  show "ax_texts p = map (\<lambda>i. text_call i (fst (ps ! i)) (snd (ps ! i))
                                    (fmul (fdiv (fsub (fst (ps ! i)) (snd (ps ! i))) (snd (ps ! i)))
                                       (float_of_nat 100)))
                            [0 ..< length ps]" by (subst p) simp
qed

lemma paired_ms_Some:
  assumes "dict_get res b = Some g" and "find_impls g = (Some s, Some d)"
    and "dict_get g s = Some ss" and "dict_get g d = Some ds"
  shows "paired_ms res b =
           Some (fmul (mean ss) (float_of_nat 1000), fmul (mean ds) (float_of_nat 1000))"
  using assms by (simp add: paired_ms_def)

lemma paired_ms_SomeD:
  assumes "paired_ms res b = Some (x, y)"
  shows "\<exists>g s d ss ds. dict_get res b = Some g \<and> find_impls g = (Some s, Some d) \<and>
           dict_get g s = Some ss \<and> dict_get g d = Some ds \<and>
           x = fmul (mean ss) (float_of_nat 1000) \<and> y = fmul (mean ds) (float_of_nat 1000)"
  using assms by (auto simp: paired_ms_def split: option.splits prod.splits)

lemma in_set_map_filter:
  "x \<in> set xs \<Longrightarrow> f x = Some y \<Longrightarrow> y \<in> set (List.map_filter f xs)"
  by (induction xs) (auto split: option.splits)

lemma length_map_filter_all:
  "\<forall>x \<in> set xs. f x \<noteq> None \<Longrightarrow> length (List.map_filter f xs) = length xs"
  by (induction xs) (auto split: option.splits)

lemma set_map_filterD:
  "y \<in> set (List.map_filter f xs) \<Longrightarrow> \<exists>x \<in> set xs. f x = Some y"
  by (induction xs) (auto split: option.splits)

lemma split_max_numeral:
  "split_max sep (numeral k) s =
     (if sep \<in> set s
      then takeWhile (\<lambda>c. c \<noteq> sep) s #
           split_max sep (pred_numeral k) (tl (dropWhile (\<lambda>c. c \<noteq> sep) s))
      else [s])"
  by (simp add: numeral_eq_Suc)

lemmas plot_unfold =
  plot_benchmark_group_def dict_get_def find_impls_def dict_keys_def pair_step_def
  x_label_def split_max_numeral bar_call_def broadcastable_def

lemmas plot_eval = plot_unfold diff_percent_def text_call_def double_eval

lemma paired_group_panel:
  assumes "dict_get res b = Some g" and "find_impls g = (Some s, Some d)"
    and "dict_get g s = Some ss" and "dict_get g d = Some ds"
    and "fmul (mean ss) (float_of_nat 1000) = x" and "fmul (mean ds) (float_of_nat 1000) = y"
    and "\<not> is_zero y"
  shows "plot_benchmark_group res [b] t =
           Inr \<lparr>ax_title = t, ax_xticks = [0], ax_xticklabels = [x_label b],
                ax_bar_sstr = [x], ax_bar_std = [y],
                ax_texts = [text_call 0 x y (fmul (fdiv (fsub x y) y) (float_of_nat 100))]\<rparr>"
proof -
  have k: "set [b] \<subseteq> set (dict_keys res)"
    using assms(1) dict_get_None_iff [of res b] by auto
  have p: "List.map_filter (paired_ms res) [b] = [(x, y)]"
    using paired_ms_Some [OF assms(1,2,3,4)] assms(5,6) by simp
  show ?thesis
    unfolding plot_benchmark_group_char [OF k, of t] p
    using assms(7) by (simp add: broadcastable_def)
qed

lemma text_call_1_2:
  "text_call i (Finite False 4503599627370496 (- 52)) (Finite False 4503599627370496 (- 51))
     (fmul (fdiv (fsub (Finite False 4503599627370496 (- 52)) (Finite False 4503599627370496 (- 51)))
                 (Finite False 4503599627370496 (- 51)))
           (Finite False 7036874417766400 (- 46))) =
   \<lparr>text_x = i, text_y = Finite False 4616189618054758 (- 51), text_s = ''-50.0%'',
    text_color = Green\<rparr>"
  unfolding text_call_def double_values by (simp add: double_eval)

lemma text_call_2_1:
  "text_call i (Finite False 4503599627370496 (- 51)) (Finite False 4503599627370496 (- 52))
     (fmul (fdiv (fsub (Finite False 4503599627370496 (- 51)) (Finite False 4503599627370496 (- 52)))
                 (Finite False 4503599627370496 (- 52)))
           (Finite False 7036874417766400 (- 46))) =
   \<lparr>text_x = i, text_y = Finite False 4616189618054758 (- 51), text_s = ''100.0%'',
    text_color = Red\<rparr>"
  unfolding text_call_def double_values by (simp add: double_eval)

lemma fadd_2_005:
  "fadd (Finite False 4503599627370496 (- 51)) (Finite False 7205759403792794 (- 57)) =
   Finite False 4616189618054758 (- 51)"
  by (simp add: double_eval)

lemma annotate_zero:
  assumes "length sm = length dm" and "\<exists>d \<in> set dm. is_zero d"
  shows "annotate sm dm [0 ..< length sm] = Inl ZeroDivisionError"
proof -
  from assms(2) obtain i where "i < length dm" "is_zero (dm ! i)"
    by (auto simp: in_set_conv_nth)
  then have "\<exists>i \<in> set [0 ..< length sm]. is_zero (dm ! i)"
    using assms(1) by auto
  moreover have "annotate sm dm [0 ..< length sm] =
     (if \<exists>i \<in> set [0 ..< length sm]. is_zero (dm ! i) then Inl ZeroDivisionError
      else Inr (map (\<lambda>i. text_call i (sm ! i) (dm ! i)
                          (fmul (fdiv (fsub (sm ! i) (dm ! i)) (dm ! i)) (float_of_nat 100)))
                  [0 ..< length sm]))"
    by (rule annotate_char) (simp add: assms(1))
  ultimately show ?thesis by simp
qed

lemma collect_means_Inr:
  assumes "collect_means res bs ([], [], []) = Inr (xl, sm, dm)"
  shows "set bs \<subseteq> set (dict_keys res)"
    and "xl = map x_label bs"
    and "sm = map fst (List.map_filter (paired_ms res) bs)"
    and "dm = map snd (List.map_filter (paired_ms res) bs)"
proof -
  show k: "set bs \<subseteq> set (dict_keys res)"
  proof (rule ccontr)
    assume "\<not> set bs \<subseteq> set (dict_keys res)"
    then have "collect_means res bs ([], [], []) = Inl KeyError"
      by (simp add: collect_means_char)
    with assms show False by simp
  qed
  with assms show "xl = map x_label bs"
    and "sm = map fst (List.map_filter (paired_ms res) bs)"
    and "dm = map snd (List.map_filter (paired_ms res) bs)"
    by (simp_all add: collect_means_char)
qed
text \<open>
  A panel with three groups, the first paired with std mean 0.0, the second paired and
  the third without an std implementation: three labels meet two bars, and the first bar
  call raises before the loop of lines 93 to 98 is reached.
\<close>

lemma zero_std_mean_behind_shape_error:
  "plot_benchmark_group
     [(''results_copy_a'',
       [(''sstr_a'', \<lparr>mean = decimal False 3 3, stddev = decimal False 0 0,
                     min_stat = decimal False 3 3, max_stat = decimal False 3 3\<rparr>),
        (''std_a'', \<lparr>mean = decimal False 0 0, stddev = decimal False 0 0,
                    min_stat = decimal False 0 0, max_stat = decimal False 0 0\<rparr>)]),
      (''results_copy_b'',
       [(''sstr_b'', \<lparr>mean = decimal False 3 3, stddev = decimal False 0 0,
                     min_stat = decimal False 3 3, max_stat = decimal False 3 3\<rparr>),
        (''std_b'', \<lparr>mean = decimal False 2 3, stddev = decimal False 0 0,
                    min_stat = decimal False 2 3, max_stat = decimal False 2 3\<rparr>)]),
      (''results_copy_c'',
       [(''sstr_c'', \<lparr>mean = decimal False 3 3, stddev = decimal False 0 0,
                     min_stat = decimal False 3 3, max_stat = decimal False 3 3\<rparr>)])]
     [''results_copy_a'', ''results_copy_b'', ''results_copy_c''] ''String Copy Performance'' =
   Inl ValueError"
proof -
  let ?r = "[(''results_copy_a'',
       [(''sstr_a'', \<lparr>mean = decimal False 3 3, stddev = decimal False 0 0,
                     min_stat = decimal False 3 3, max_stat = decimal False 3 3\<rparr>),
        (''std_a'', \<lparr>mean = decimal False 0 0, stddev = decimal False 0 0,
                    min_stat = decimal False 0 0, max_stat = decimal False 0 0\<rparr>)]),
      (''results_copy_b'',
       [(''sstr_b'', \<lparr>mean = decimal False 3 3, stddev = decimal False 0 0,
                     min_stat = decimal False 3 3, max_stat = decimal False 3 3\<rparr>),
        (''std_b'', \<lparr>mean = decimal False 2 3, stddev = decimal False 0 0,
                    min_stat = decimal False 2 3, max_stat = decimal False 2 3\<rparr>)]),
      (''results_copy_c'',
       [(''sstr_c'', \<lparr>mean = decimal False 3 3, stddev = decimal False 0 0,
                     min_stat = decimal False 3 3, max_stat = decimal False 3 3\<rparr>)])]"
  have k: "set [''results_copy_a'', ''results_copy_b'', ''results_copy_c''] \<subseteq> set (dict_keys ?r)"
    by (simp add: dict_keys_def)
  have l: "length (List.map_filter (paired_ms ?r)
             [''results_copy_a'', ''results_copy_b'', ''results_copy_c'']) = 2"
    by (simp add: paired_ms_def dict_get_def find_impls_def dict_keys_def pair_step_def)
  show ?thesis
    unfolding plot_benchmark_group_char [OF k] l by (simp add: broadcastable_def)
qed


subsection \<open>Facts about loading distinct files and about the comparison plot\<close>

lemma dict_set_new: "k \<notin> set (dict_keys d) \<Longrightarrow> dict_set d k v = d @ [(k, v)]"
  by (induction d) (auto simp: dict_keys_def)

lemma foldl_dict_set_distinct:
  "distinct (map kf xs) \<Longrightarrow>
     foldl (\<lambda>d x. dict_set d (kf x) (vf x)) [] xs = map (\<lambda>x. (kf x, vf x)) xs"
proof (induction xs rule: rev_induct)
  case Nil
  then show ?case by simp
next
  case (snoc x xs)
  then have IH: "foldl (\<lambda>d x. dict_set d (kf x) (vf x)) [] xs = map (\<lambda>x. (kf x, vf x)) xs"
    and new: "kf x \<notin> kf ` set xs"
    by simp_all
  have "kf x \<notin> set (dict_keys (map (\<lambda>x. (kf x, vf x)) xs))"
    using new by (simp add: dict_keys_def comp_def)
  then show ?case
    by (simp add: IH dict_set_new)
qed

lemma load_distinct:
  assumes "distinct (map (\<lambda>f. benchmark_name (fst f)) files)"
  shows "load_benchmark_results files =
           map (\<lambda>f. (benchmark_name (fst f), benchmark_data (snd f))) files"
  unfolding load_as_foldl using assms by (rule foldl_dict_set_distinct)

lemma collect_means_cong:
  assumes "\<forall>b \<in> set bs. dict_get res' b = dict_get res b"
  shows "collect_means res' bs acc = collect_means res bs acc"
  using assms
proof (induction bs arbitrary: acc)
  case Nil
  then show ?case by simp
next
  case (Cons b bs)
  obtain xl sm dm where acc: "acc = (xl, sm, dm)" by (cases acc)
  have IH: "\<And>a. collect_means res' bs a = collect_means res bs a"
    using Cons by simp
  have d: "dict_get res' b = dict_get res b" using Cons.prems by simp
  show ?case unfolding acc collect_means.simps d IH ..
qed

lemma plot_benchmark_group_cong:
  assumes "\<forall>b \<in> set bs. dict_get res' b = dict_get res b"
  shows "plot_benchmark_group res' bs t = plot_benchmark_group res bs t"
  by (simp add: plot_benchmark_group_def collect_means_cong [OF assms])

lemma create_comparison_plot_cong:
  assumes "copy_benchmarks res' = copy_benchmarks res"
    and "append_benchmarks res' = append_benchmarks res"
    and "format_benchmarks res' = format_benchmarks res"
    and "\<forall>b \<in> set (copy_benchmarks res) \<union> set (append_benchmarks res) \<union> set (format_benchmarks res).
           dict_get res' b = dict_get res b"
  shows "create_comparison_plot res' out = create_comparison_plot res out"
proof -
  have e: "plot_benchmark_group res' (copy_benchmarks res) t = plot_benchmark_group res (copy_benchmarks res) t"
    "plot_benchmark_group res' (append_benchmarks res) t = plot_benchmark_group res (append_benchmarks res) t"
    "plot_benchmark_group res' (format_benchmarks res) t = plot_benchmark_group res (format_benchmarks res) t"
    for t
    using assms(4) by (auto intro!: plot_benchmark_group_cong)
  show ?thesis
    unfolding create_comparison_plot_def assms(1,2,3) e ..
qed

lemma sort_mset_eq:
  fixes xs ys :: "'a :: linorder list"
  assumes "mset xs = mset ys"
  shows "sort xs = sort ys"
  by (rule properties_for_sort) (simp_all add: assms)

lemma prefix_exclusive:
  "\<not> (startswith b ''results_copy'' \<and> startswith b ''results_append'')"
  "\<not> (startswith b ''results_copy'' \<and> startswith b ''results_format'')"
  "\<not> (startswith b ''results_append'' \<and> startswith b ''results_format'')"
  unfolding startswith_def
  using prefix_same_cases [of "''results_copy''" b "''results_append''"]
    prefix_same_cases [of "''results_copy''" b "''results_format''"]
    prefix_same_cases [of "''results_append''" b "''results_format''"]
  by auto

lemma filter_sort_dict_set:
  fixes res :: results
  assumes "\<not> P g"
  shows "filter P (sort (dict_keys (dict_set res g v))) = filter P (sort (dict_keys res))"
  using assms by (simp add: dict_keys_dict_set filter_sort)

lemma create_comparison_plot_unmatched:
  assumes "\<not> startswith g ''results_copy''" and "\<not> startswith g ''results_append''"
    and "\<not> startswith g ''results_format''"
  shows "create_comparison_plot (dict_set res g v) out = create_comparison_plot res out"
proof (rule create_comparison_plot_cong)
  show "copy_benchmarks (dict_set res g v) = copy_benchmarks res"
    unfolding copy_benchmarks_def sorted_benchmarks_def using assms(1) by (rule filter_sort_dict_set)
  show "append_benchmarks (dict_set res g v) = append_benchmarks res"
    unfolding append_benchmarks_def sorted_benchmarks_def using assms(2) by (rule filter_sort_dict_set)
  show "format_benchmarks (dict_set res g v) = format_benchmarks res"
    unfolding format_benchmarks_def sorted_benchmarks_def using assms(3) by (rule filter_sort_dict_set)
  show "\<forall>b \<in> set (copy_benchmarks res) \<union> set (append_benchmarks res) \<union> set (format_benchmarks res).
           dict_get (dict_set res g v) b = dict_get res b"
    using assms
    by (auto simp: copy_benchmarks_def append_benchmarks_def format_benchmarks_def dict_get_dict_set)
qed

lemma create_comparison_plot_Inr:
  assumes "create_comparison_plot res out = Inr (ps, line)"
  shows "map ax_title ps =
           [''String Copy Performance'', ''String Append Performance'', ''String Format Performance''] \<and>
         map ax_xticklabels ps =
           [map x_label (copy_benchmarks res), map x_label (append_benchmarks res),
            map x_label (format_benchmarks res)] \<and>
         line = ''Plot saved to '' @ out"
proof -
  from assms obtain p0 p1 p2 where
    p0: "plot_benchmark_group res (copy_benchmarks res) ''String Copy Performance'' = Inr p0" and
    p1: "plot_benchmark_group res (append_benchmarks res) ''String Append Performance'' = Inr p1" and
    p2: "plot_benchmark_group res (format_benchmarks res) ''String Format Performance'' = Inr p2" and
    ps: "ps = [p0, p1, p2]" and line: "line = ''Plot saved to '' @ out"
    by (auto simp: create_comparison_plot_def split: sum.splits)
  show ?thesis
    unfolding ps using line plot_Inr_fields(2,4) [OF p0] plot_Inr_fields(2,4) [OF p1]
      plot_Inr_fields(2,4) [OF p2]
    by simp
qed



subsection \<open>The claims\<close>

text \<open>
  Claim C1 says that a group without an sstr or without an std implementation leaves no
  entry in the label list, so that the labels are as many as the bars of each series.
  The procedure does otherwise: line 69 appends the label before the pairing is known.
  On a panel whose only group has no std implementation the two bar series stay empty
  while the label \<open>small\<close> and the tick \<open>0\<close> are there.
\<close>

theorem skipped_group_keeps_label:
  "plot_benchmark_group
     [(''results_copy_small'',
       [(''sstr_copy_small'', \<lparr>mean = decimal False 1 3, stddev = decimal False 0 0,
          min_stat = decimal False 1 3, max_stat = decimal False 1 3\<rparr>)])]
     [''results_copy_small''] ''String Copy Performance'' =
   Inr \<lparr>ax_title = ''String Copy Performance'', ax_xticks = [0], ax_xticklabels = [''small''],
        ax_bar_sstr = [], ax_bar_std = [], ax_texts = []\<rparr>"
  by (simp add: plot_unfold)

text \<open>
  Claim C2. For every implementation name the pairing loop examines, the two substring
  tests are exclusive and ordered: a name that contains \<open>sstr\<close> becomes the sstr
  implementation and leaves the std slot alone, also when it contains \<open>std\<close> as well;
  the test for \<open>std\<close> only decides for names without \<open>sstr\<close>; a name with
  neither changes nothing. (\<^const>\<open>str_in\<close> is substring containment, see
  \<open>str_in_iff\<close>.)
\<close>

theorem pair_step_precedence:
  "(str_in ''sstr'' name \<longrightarrow> pair_step (s, d) name = (Some name, d)) \<and>
   (\<not> str_in ''sstr'' name \<and> str_in ''std'' name \<longrightarrow> pair_step (s, d) name = (s, Some name)) \<and>
   (\<not> str_in ''sstr'' name \<and> \<not> str_in ''std'' name \<longrightarrow> pair_step (s, d) name = (s, d))"
  by (simp add: pair_step_def)

text \<open>
  Witness for C2: a name with both substrings, a name with \<open>std\<close> only, and a name
  with neither.
\<close>

theorem pair_step_precedence_witness:
  "str_in ''sstr'' ''sstr_vs_std'' \<and> str_in ''std'' ''sstr_vs_std'' \<and>
   pair_step (None, Some ''std_x'') ''sstr_vs_std'' = (Some ''sstr_vs_std'', Some ''std_x'') \<and>
   \<not> str_in ''sstr'' ''baseline_std_v1'' \<and> str_in ''std'' ''baseline_std_v1'' \<and>
   pair_step (None, None) ''baseline_std_v1'' = (None, Some ''baseline_std_v1'') \<and>
   \<not> str_in ''sstr'' ''other'' \<and> \<not> str_in ''std'' ''other'' \<and>
   pair_step (Some ''a'', None) ''other'' = (Some ''a'', None)"
proof -
  have a: "str_in ''sstr'' ''sstr_vs_std''" by simp
  have b: "\<not> str_in ''sstr'' ''baseline_std_v1'' \<and> str_in ''std'' ''baseline_std_v1''" by simp
  have c: "\<not> str_in ''sstr'' ''other'' \<and> \<not> str_in ''std'' ''other''" by simp
  have d: "str_in ''std'' ''sstr_vs_std''" by simp
  from a b c d
    pair_step_precedence [of "''sstr_vs_std''" None "Some ''std_x''"]
    pair_step_precedence [of "''baseline_std_v1''" None None]
    pair_step_precedence [of "''other''" "Some ''a''" None]
  show ?thesis by blast
qed

text \<open>
  Claim C7. The x-axis label of a group name is the last of the at most three parts that
  splitting at the first two underscores gives: for a name with two underscores it is
  everything after the second one, further underscores included; \<open>results_copy_small\<close>
  gives \<open>small\<close> and \<open>results_format_large_extra\<close> gives \<open>large_extra\<close>.
\<close>

theorem x_label_after_second_underscore:
  "x_label b = last (split_max CHR ''_'' 2 b) \<and>
   length (split_max CHR ''_'' 2 b) \<le> 3 \<and>
   (CHR ''_'' \<notin> set p \<and> CHR ''_'' \<notin> set q \<longrightarrow> x_label (p @ ''_'' @ q @ ''_'' @ r) = r) \<and>
   x_label ''results_copy_small'' = ''small'' \<and>
   x_label ''results_format_large_extra'' = ''large_extra''"
proof -
  have "length (split_max CHR ''_'' 2 b) \<le> 3"
    using length_split_max [of "CHR ''_''" 2 b] by simp
  moreover have "x_label (p @ ''_'' @ q @ ''_'' @ r) = r"
    if "CHR ''_'' \<notin> set p" "CHR ''_'' \<notin> set q"
    using split_max_two [OF that, of r] by (simp add: x_label_def)
  moreover have "x_label ''results_copy_small'' = ''small''"
    by (simp add: x_label_def numeral_2_eq_2)
  moreover have "x_label ''results_format_large_extra'' = ''large_extra''"
    by (simp add: x_label_def numeral_2_eq_2)
  ultimately show ?thesis by (simp add: x_label_def)
qed

text \<open>Witness for C7: the name \<open>results_append_medium_v2\<close>.\<close>

theorem x_label_after_second_underscore_witness:
  "CHR ''_'' \<notin> set ''results'' \<and> CHR ''_'' \<notin> set ''append'' \<and>
   x_label (''results'' @ ''_'' @ ''append'' @ ''_'' @ ''medium_v2'') = ''medium_v2'' \<and>
   length (split_max CHR ''_'' 2 ''results_append_medium_v2'') \<le> 3"
proof -
  have h: "CHR ''_'' \<notin> set ''results'' \<and> CHR ''_'' \<notin> set ''append''" by simp
  from h x_label_after_second_underscore [of "''results_append_medium_v2''" "''results''" "''append''" "''medium_v2''"]
  show ?thesis by blast
qed

text \<open>
  Counterexample for C3: with sstr mean 0.0020 s and std mean 0.0010 s the bars are 2.0
  and 1.0, the difference is 100.0, not 50, and the text is \<open>100.0%\<close> without a plus
  sign.
\<close>

theorem swapped_means_counterexample:
  "plot_benchmark_group
     [(''results_copy_small'',
       [(''sstr_copy_small'',
         \<lparr>mean = decimal False 2 3, stddev = decimal False 0 0,
          min_stat = decimal False 2 3, max_stat = decimal False 2 3\<rparr>),
        (''std_copy_small'',
         \<lparr>mean = decimal False 1 3, stddev = decimal False 0 0,
          min_stat = decimal False 1 3, max_stat = decimal False 1 3\<rparr>)])]
     [''results_copy_small''] ''String Copy Performance'' =
   Inr \<lparr>ax_title = ''String Copy Performance'', ax_xticks = [0], ax_xticklabels = [''small''],
        ax_bar_sstr = [float_of_nat 2], ax_bar_std = [float_of_nat 1],
        ax_texts = [\<lparr>text_x = 0, text_y = fadd (float_of_nat 2) (decimal False 5 2),
                     text_s = ''100.0%'', text_color = Red\<rparr>]\<rparr> \<and>
   diff_percent (fmul (decimal False 2 3) (float_of_nat 1000))
                (fmul (decimal False 1 3) (float_of_nat 1000)) = Inr (float_of_nat 100) \<and>
   float_of_nat 100 \<noteq> float_of_nat 50 \<and>
   ''100.0%'' \<noteq> ''+50.0%''"
proof -
  let ?ss = "\<lparr>mean = decimal False 2 3, stddev = decimal False 0 0,
          min_stat = decimal False 2 3, max_stat = decimal False 2 3\<rparr>"
  let ?ds = "\<lparr>mean = decimal False 1 3, stddev = decimal False 0 0,
          min_stat = decimal False 1 3, max_stat = decimal False 1 3\<rparr>"
  let ?g = "[(''sstr_copy_small'', ?ss), (''std_copy_small'', ?ds)]"
  have g: "dict_get [(''results_copy_small'', ?g)] ''results_copy_small'' = Some ?g"
    by (simp add: dict_get_def)
  have f: "find_impls ?g = (Some ''sstr_copy_small'', Some ''std_copy_small'')"
    by (simp add: find_impls_def dict_keys_def pair_step_def)
  have s: "dict_get ?g ''sstr_copy_small'' = Some ?ss" by (simp add: dict_get_def)
  have d: "dict_get ?g ''std_copy_small'' = Some ?ds" by (simp add: dict_get_def)
  have x: "fmul (mean ?ss) (float_of_nat 1000) = Finite False 4503599627370496 (- 51)"
    unfolding stats.select_convs by (rule ms_0_002)
  have y: "fmul (mean ?ds) (float_of_nat 1000) = Finite False 4503599627370496 (- 52)"
    unfolding stats.select_convs by (rule ms_0_001)
  have nz: "\<not> is_zero (Finite False 4503599627370496 (- 52))" by simp
  have l: "x_label ''results_copy_small'' = ''small''"
    by (simp add: x_label_def split_max_numeral)
  have p: "plot_benchmark_group [(''results_copy_small'', ?g)] [''results_copy_small'']
             ''String Copy Performance'' =
           Inr \<lparr>ax_title = ''String Copy Performance'', ax_xticks = [0],
                ax_xticklabels = [''small''],
                ax_bar_sstr = [float_of_nat 2], ax_bar_std = [float_of_nat 1],
                ax_texts = [\<lparr>text_x = 0, text_y = fadd (float_of_nat 2) (decimal False 5 2),
                             text_s = ''100.0%'', text_color = Red\<rparr>]\<rparr>"
    unfolding float_of_nat_1 float_of_nat_2 decimal_0_05 fadd_2_005
    using paired_group_panel [OF g f s d x y nz, of "''String Copy Performance''",
        unfolded float_of_nat_100 text_call_2_1 l] .
  have q: "diff_percent (fmul (decimal False 2 3) (float_of_nat 1000))
                (fmul (decimal False 1 3) (float_of_nat 1000)) = Inr (float_of_nat 100)"
    unfolding ms_0_001 ms_0_002 diff_percent_def double_values by (simp add: double_eval)
  have r: "float_of_nat 100 \<noteq> float_of_nat 50"
    unfolding double_values by simp
  from p q r show ?thesis by simp
qed

text \<open>
  Claim C3, amended. For a paired group with sstr mean 0.0010 s and std mean 0.0020 s the
  bars are 1.0 and 2.0, the difference is -50.0 and the annotation is the green text
  \<open>-50.0%\<close>; for the swapped means the difference is 100.0 and the annotation is the
  red text \<open>100.0%\<close>.
\<close>

theorem percentage_sign_examples:
  assumes "find_impls g = (Some s, Some d)"
    and "dict_get g s = Some ss" and "dict_get g d = Some ds"
  shows "(mean ss = decimal False 1 3 \<and> mean ds = decimal False 2 3 \<longrightarrow>
            plot_benchmark_group [(b, g)] [b] t =
              Inr \<lparr>ax_title = t, ax_xticks = [0], ax_xticklabels = [x_label b],
                   ax_bar_sstr = [float_of_nat 1], ax_bar_std = [float_of_nat 2],
                   ax_texts = [\<lparr>text_x = 0, text_y = fadd (float_of_nat 2) (decimal False 5 2),
                                text_s = ''-50.0%'', text_color = Green\<rparr>]\<rparr>) \<and>
         (mean ss = decimal False 2 3 \<and> mean ds = decimal False 1 3 \<longrightarrow>
            plot_benchmark_group [(b, g)] [b] t =
              Inr \<lparr>ax_title = t, ax_xticks = [0], ax_xticklabels = [x_label b],
                   ax_bar_sstr = [float_of_nat 2], ax_bar_std = [float_of_nat 1],
                   ax_texts = [\<lparr>text_x = 0, text_y = fadd (float_of_nat 2) (decimal False 5 2),
                                text_s = ''100.0%'', text_color = Red\<rparr>]\<rparr>) \<and>
         diff_percent (float_of_nat 1) (float_of_nat 2) = Inr (fneg (float_of_nat 50)) \<and>
         diff_percent (float_of_nat 2) (float_of_nat 1) = Inr (float_of_nat 100)"
proof -
  have g: "dict_get [(b, g)] b = Some g" by (simp add: dict_get_def)
  have nz: "\<not> is_zero (Finite False 4503599627370496 (- 51))"
    "\<not> is_zero (Finite False 4503599627370496 (- 52))"
    by simp_all
  have a: "plot_benchmark_group [(b, g)] [b] t =
              Inr \<lparr>ax_title = t, ax_xticks = [0], ax_xticklabels = [x_label b],
                   ax_bar_sstr = [float_of_nat 1], ax_bar_std = [float_of_nat 2],
                   ax_texts = [\<lparr>text_x = 0, text_y = fadd (float_of_nat 2) (decimal False 5 2),
                                text_s = ''-50.0%'', text_color = Green\<rparr>]\<rparr>"
    if "mean ss = decimal False 1 3" "mean ds = decimal False 2 3"
  proof -
    have x: "fmul (mean ss) (float_of_nat 1000) = Finite False 4503599627370496 (- 52)"
      unfolding that by (rule ms_0_001)
    have y: "fmul (mean ds) (float_of_nat 1000) = Finite False 4503599627370496 (- 51)"
      unfolding that by (rule ms_0_002)
    show ?thesis
      unfolding double_values fadd_2_005
      using paired_group_panel [OF g assms x y nz(1), of t, unfolded float_of_nat_100 text_call_1_2] .
  qed
  have b: "plot_benchmark_group [(b, g)] [b] t =
              Inr \<lparr>ax_title = t, ax_xticks = [0], ax_xticklabels = [x_label b],
                   ax_bar_sstr = [float_of_nat 2], ax_bar_std = [float_of_nat 1],
                   ax_texts = [\<lparr>text_x = 0, text_y = fadd (float_of_nat 2) (decimal False 5 2),
                                text_s = ''100.0%'', text_color = Red\<rparr>]\<rparr>"
    if "mean ss = decimal False 2 3" "mean ds = decimal False 1 3"
  proof -
    have x: "fmul (mean ss) (float_of_nat 1000) = Finite False 4503599627370496 (- 51)"
      unfolding that by (rule ms_0_002)
    have y: "fmul (mean ds) (float_of_nat 1000) = Finite False 4503599627370496 (- 52)"
      unfolding that by (rule ms_0_001)
    show ?thesis
      unfolding double_values fadd_2_005
      using paired_group_panel [OF g assms x y nz(2), of t, unfolded float_of_nat_100 text_call_2_1] .
  qed
  have "diff_percent (float_of_nat 1) (float_of_nat 2) = Inr (fneg (float_of_nat 50))"
    and "diff_percent (float_of_nat 2) (float_of_nat 1) = Inr (float_of_nat 100)"
    unfolding diff_percent_def double_values by (simp_all add: double_eval)
  with a b show ?thesis by blast
qed

text \<open>
  Witness for C3: the group of \<open>results_copy_small\<close> with the two means, and with
  the means swapped.
\<close>

theorem percentage_sign_examples_witness:
  "find_impls [(''sstr_copy_small'', \<lparr>mean = decimal False 1 3, stddev = decimal False 0 0,
        min_stat = decimal False 1 3, max_stat = decimal False 1 3\<rparr>),
               (''std_copy_small'', \<lparr>mean = decimal False 2 3, stddev = decimal False 0 0,
        min_stat = decimal False 2 3, max_stat = decimal False 2 3\<rparr>)] =
     (Some ''sstr_copy_small'', Some ''std_copy_small'') \<and>
   plot_benchmark_group
     [(''results_copy_small'',
       [(''sstr_copy_small'', \<lparr>mean = decimal False 1 3, stddev = decimal False 0 0,
        min_stat = decimal False 1 3, max_stat = decimal False 1 3\<rparr>),
        (''std_copy_small'', \<lparr>mean = decimal False 2 3, stddev = decimal False 0 0,
        min_stat = decimal False 2 3, max_stat = decimal False 2 3\<rparr>)])]
     [''results_copy_small''] ''String Copy Performance'' =
   Inr \<lparr>ax_title = ''String Copy Performance'', ax_xticks = [0], ax_xticklabels = [''small''],
        ax_bar_sstr = [float_of_nat 1], ax_bar_std = [float_of_nat 2],
        ax_texts = [\<lparr>text_x = 0, text_y = fadd (float_of_nat 2) (decimal False 5 2), text_s = ''-50.0%'', text_color = Green\<rparr>]\<rparr> \<and>
   find_impls [(''sstr_copy_small'', \<lparr>mean = decimal False 2 3, stddev = decimal False 0 0,
        min_stat = decimal False 2 3, max_stat = decimal False 2 3\<rparr>),
               (''std_copy_small'', \<lparr>mean = decimal False 1 3, stddev = decimal False 0 0,
        min_stat = decimal False 1 3, max_stat = decimal False 1 3\<rparr>)] =
     (Some ''sstr_copy_small'', Some ''std_copy_small'') \<and>
   plot_benchmark_group
     [(''results_copy_small'',
       [(''sstr_copy_small'', \<lparr>mean = decimal False 2 3, stddev = decimal False 0 0,
        min_stat = decimal False 2 3, max_stat = decimal False 2 3\<rparr>),
        (''std_copy_small'', \<lparr>mean = decimal False 1 3, stddev = decimal False 0 0,
        min_stat = decimal False 1 3, max_stat = decimal False 1 3\<rparr>)])]
     [''results_copy_small''] ''String Copy Performance'' =
   Inr \<lparr>ax_title = ''String Copy Performance'', ax_xticks = [0], ax_xticklabels = [''small''],
        ax_bar_sstr = [float_of_nat 2], ax_bar_std = [float_of_nat 1],
        ax_texts = [\<lparr>text_x = 0, text_y = fadd (float_of_nat 2) (decimal False 5 2), text_s = ''100.0%'', text_color = Red\<rparr>]\<rparr>"
proof -
  let ?s1 = "\<lparr>mean = decimal False 1 3, stddev = decimal False 0 0,
        min_stat = decimal False 1 3, max_stat = decimal False 1 3\<rparr>"
  let ?s2 = "\<lparr>mean = decimal False 2 3, stddev = decimal False 0 0,
        min_stat = decimal False 2 3, max_stat = decimal False 2 3\<rparr>"
  let ?g = "[(''sstr_copy_small'', ?s1), (''std_copy_small'', ?s2)]"
  let ?h = "[(''sstr_copy_small'', ?s2), (''std_copy_small'', ?s1)]"
  have fg: "find_impls ?g = (Some ''sstr_copy_small'', Some ''std_copy_small'')"
    by (simp add: find_impls_def dict_keys_def pair_step_def)
  have fh: "find_impls ?h = (Some ''sstr_copy_small'', Some ''std_copy_small'')"
    by (simp add: find_impls_def dict_keys_def pair_step_def)
  have g1: "dict_get ?g ''sstr_copy_small'' = Some ?s1" by (simp add: dict_get_def)
  have g2: "dict_get ?g ''std_copy_small'' = Some ?s2" by (simp add: dict_get_def)
  have h1: "dict_get ?h ''sstr_copy_small'' = Some ?s2" by (simp add: dict_get_def)
  have h2: "dict_get ?h ''std_copy_small'' = Some ?s1" by (simp add: dict_get_def)
  have l: "x_label ''results_copy_small'' = ''small''"
    by (simp add: x_label_def split_max_numeral)
  have m1: "mean ?s1 = decimal False 1 3 \<and> mean ?s2 = decimal False 2 3"
    unfolding stats.select_convs by (intro conjI refl)
  have m2: "mean ?s2 = decimal False 2 3 \<and> mean ?s1 = decimal False 1 3"
    unfolding stats.select_convs by (intro conjI refl)
  from percentage_sign_examples [OF fg g1 g2, of "''results_copy_small''" "''String Copy Performance''"] m1
  have a: "plot_benchmark_group [(''results_copy_small'', ?g)] [''results_copy_small'']
        ''String Copy Performance'' =
      Inr \<lparr>ax_title = ''String Copy Performance'', ax_xticks = [0],
           ax_xticklabels = [x_label ''results_copy_small''],
           ax_bar_sstr = [float_of_nat 1], ax_bar_std = [float_of_nat 2],
           ax_texts = [\<lparr>text_x = 0, text_y = fadd (float_of_nat 2) (decimal False 5 2), text_s = ''-50.0%'', text_color = Green\<rparr>]\<rparr>"
    by blast
  from percentage_sign_examples [OF fh h1 h2, of "''results_copy_small''" "''String Copy Performance''"] m2
  have b: "plot_benchmark_group [(''results_copy_small'', ?h)] [''results_copy_small'']
        ''String Copy Performance'' =
      Inr \<lparr>ax_title = ''String Copy Performance'', ax_xticks = [0],
           ax_xticklabels = [x_label ''results_copy_small''],
           ax_bar_sstr = [float_of_nat 2], ax_bar_std = [float_of_nat 1],
           ax_texts = [\<lparr>text_x = 0, text_y = fadd (float_of_nat 2) (decimal False 5 2), text_s = ''100.0%'', text_color = Red\<rparr>]\<rparr>"
    by blast
  show ?thesis
    unfolding a b l using fg fh by simp
qed

text \<open>
  Claim C9. When two entries of one result file give the same implementation name (the
  text after the last \<open>/\<close> of the command, see \<open>impl_name_after_last_slash\<close>), the
  later one overwrites the earlier one: the group has that name once, and under it the
  four statistics of the last entry with that name. The group is what the loaded results
  hold for the file.
\<close>

theorem later_entry_overwrites:
  assumes "i < j" and "j < length data"
    and "impl_name (data ! i) = impl_name (data ! j)"
    and "\<forall>k. j < k \<and> k < length data \<longrightarrow> impl_name (data ! k) \<noteq> impl_name (data ! j)"
  shows "dict_get (benchmark_data data) (impl_name (data ! j)) = Some (stats_of (data ! j)) \<and>
         distinct (dict_keys (benchmark_data data)) \<and>
         dict_get (load_benchmark_results [(filename, data)]) (benchmark_name filename) =
           Some (benchmark_data data)"
proof -
  have "find (\<lambda>e. impl_name e = impl_name (data ! j)) (rev data) = Some (data ! j)"
    using assms(2,4) by (intro find_rev_last) auto
  then have "dict_get (benchmark_data data) (impl_name (data ! j)) = Some (stats_of (data ! j))"
    by (simp add: dict_get_benchmark_data)
  moreover have "distinct (dict_keys (benchmark_data data))"
    by (simp add: dict_keys_benchmark_data)
  moreover have "dict_get (load_benchmark_results [(filename, data)]) (benchmark_name filename) =
           Some (benchmark_data data)"
    by (simp add: load_benchmark_results_def dict_get_def)
  ultimately show ?thesis by simp
qed

text \<open>
  Witness for C9: two entries whose commands end in \<open>sstr_copy\<close>; the group keeps the
  statistics of the second.
\<close>

theorem later_entry_overwrites_witness:
  "(0::nat) < 1 \<and> 1 < length
      [\<lparr>mean = decimal False 12 4, stddev = decimal False 3 4, min_stat = decimal False 11 4,
        max_stat = decimal False 13 4, command = ''./build/sstr_copy''\<rparr>,
       \<lparr>mean = decimal False 25 4, stddev = decimal False 2 4, min_stat = decimal False 21 4,
        max_stat = decimal False 29 4, command = ''/opt/sstr_copy''\<rparr>] \<and>
   impl_name \<lparr>mean = decimal False 12 4, stddev = decimal False 3 4, min_stat = decimal False 11 4,
        max_stat = decimal False 13 4, command = ''./build/sstr_copy''\<rparr> =
   impl_name \<lparr>mean = decimal False 25 4, stddev = decimal False 2 4, min_stat = decimal False 21 4,
        max_stat = decimal False 29 4, command = ''/opt/sstr_copy''\<rparr> \<and>
   dict_get (benchmark_data
      [\<lparr>mean = decimal False 12 4, stddev = decimal False 3 4, min_stat = decimal False 11 4,
        max_stat = decimal False 13 4, command = ''./build/sstr_copy''\<rparr>,
       \<lparr>mean = decimal False 25 4, stddev = decimal False 2 4, min_stat = decimal False 21 4,
        max_stat = decimal False 29 4, command = ''/opt/sstr_copy''\<rparr>])
     ''sstr_copy'' = Some \<lparr>mean = decimal False 25 4, stddev = decimal False 2 4, min_stat = decimal False 21 4,
        max_stat = decimal False 29 4\<rparr>"
proof -
  let ?e1 = "\<lparr>mean = decimal False 12 4, stddev = decimal False 3 4, min_stat = decimal False 11 4,
        max_stat = decimal False 13 4, command = ''./build/sstr_copy''\<rparr>"
  let ?e2 = "\<lparr>mean = decimal False 25 4, stddev = decimal False 2 4, min_stat = decimal False 21 4,
        max_stat = decimal False 29 4, command = ''/opt/sstr_copy''\<rparr>"
  have n1: "impl_name ?e1 = ''sstr_copy''" by (simp add: impl_name_def split_def)
  have n2: "impl_name ?e2 = ''sstr_copy''" by (simp add: impl_name_def split_def)
  have a: "(0::nat) < 1" by simp
  have b: "1 < length [?e1, ?e2]" by simp
  have c: "impl_name ([?e1, ?e2] ! 0) = impl_name ([?e1, ?e2] ! 1)" by (simp add: n1 n2)
  have d: "\<forall>k. 1 < k \<and> k < length [?e1, ?e2] \<longrightarrow> impl_name ([?e1, ?e2] ! k) \<noteq> impl_name ([?e1, ?e2] ! 1)"
    by auto
  from later_entry_overwrites [OF a b c d, of "''results_copy_small.json''"]
  have "dict_get (benchmark_data [?e1, ?e2]) (impl_name ([?e1, ?e2] ! 1)) = Some (stats_of ([?e1, ?e2] ! 1))"
    by blast
  then have "dict_get (benchmark_data [?e1, ?e2]) ''sstr_copy'' =
      Some \<lparr>mean = decimal False 25 4, stddev = decimal False 2 4, min_stat = decimal False 21 4,
        max_stat = decimal False 29 4\<rparr>"
    by (simp add: n2 stats_of_def)
  with a b n1 n2 show ?thesis by simp
qed

text \<open>
  Claim C4. In a panel that is drawn, the two bar series are the means times 1000 of the
  groups that were paired, in order, and every annotation \<open>i\<close> shows
  \<open>((sstr_ms[i] - std_ms[i]) / std_ms[i]) * 100\<close>, computed in floating point, formatted
  to one decimal place with a percent sign; its colour is green exactly when that value
  is less than zero and red otherwise, in particular when the two bars are equal.
\<close>

theorem annotation_value_and_color:
  assumes "plot_benchmark_group res benchmarks t = Inr p"
  shows "zip (ax_bar_sstr p) (ax_bar_std p) = List.map_filter (paired_ms res) benchmarks \<and>
         length (ax_texts p) = length (ax_bar_sstr p) \<and>
         length (ax_bar_std p) = length (ax_bar_sstr p) \<and>
         (\<forall>i < length (ax_texts p).
            (\<exists>b \<in> set benchmarks. \<exists>g s d ss ds.
               dict_get res b = Some g \<and> find_impls g = (Some s, Some d) \<and>
               dict_get g s = Some ss \<and> dict_get g d = Some ds \<and>
               ax_bar_sstr p ! i = fmul (mean ss) (float_of_nat 1000) \<and>
               ax_bar_std p ! i = fmul (mean ds) (float_of_nat 1000)) \<and>
            \<not> is_zero (ax_bar_std p ! i) \<and>
            text_x (ax_texts p ! i) = i \<and>
            text_s (ax_texts p ! i) =
              format_1f (fmul (fdiv (fsub (ax_bar_sstr p ! i) (ax_bar_std p ! i)) (ax_bar_std p ! i))
                           (float_of_nat 100)) @ ''%'' \<and>
            (text_color (ax_texts p ! i) = Green \<longleftrightarrow>
               fless (fmul (fdiv (fsub (ax_bar_sstr p ! i) (ax_bar_std p ! i)) (ax_bar_std p ! i))
                        (float_of_nat 100)) (float_of_nat 0)) \<and>
            (text_color (ax_texts p ! i) = Red \<longleftrightarrow>
               \<not> fless (fmul (fdiv (fsub (ax_bar_sstr p ! i) (ax_bar_std p ! i)) (ax_bar_std p ! i))
                          (float_of_nat 100)) (float_of_nat 0)) \<and>
            (ax_bar_sstr p ! i = ax_bar_std p ! i \<longrightarrow> text_color (ax_texts p ! i) = Red))"
proof -
  define ps where "ps = List.map_filter (paired_ms res) benchmarks"
  note f = plot_Inr_fields [OF assms, folded ps_def]
  have zip: "zip (ax_bar_sstr p) (ax_bar_std p) = ps"
    unfolding f(5,6) by (simp add: zip_map_fst_snd)
  have len: "length (ax_texts p) = length ps" "length (ax_bar_sstr p) = length ps"
    "length (ax_bar_std p) = length ps"
    unfolding f(5,6,7) by simp_all
  have each: "(\<exists>b \<in> set benchmarks. \<exists>g s d ss ds.
               dict_get res b = Some g \<and> find_impls g = (Some s, Some d) \<and>
               dict_get g s = Some ss \<and> dict_get g d = Some ds \<and>
               ax_bar_sstr p ! i = fmul (mean ss) (float_of_nat 1000) \<and>
               ax_bar_std p ! i = fmul (mean ds) (float_of_nat 1000)) \<and>
            \<not> is_zero (ax_bar_std p ! i) \<and>
            text_x (ax_texts p ! i) = i \<and>
            text_s (ax_texts p ! i) =
              format_1f (fmul (fdiv (fsub (ax_bar_sstr p ! i) (ax_bar_std p ! i)) (ax_bar_std p ! i))
                           (float_of_nat 100)) @ ''%'' \<and>
            (text_color (ax_texts p ! i) = Green \<longleftrightarrow>
               fless (fmul (fdiv (fsub (ax_bar_sstr p ! i) (ax_bar_std p ! i)) (ax_bar_std p ! i))
                        (float_of_nat 100)) (float_of_nat 0)) \<and>
            (text_color (ax_texts p ! i) = Red \<longleftrightarrow>
               \<not> fless (fmul (fdiv (fsub (ax_bar_sstr p ! i) (ax_bar_std p ! i)) (ax_bar_std p ! i))
                          (float_of_nat 100)) (float_of_nat 0)) \<and>
            (ax_bar_sstr p ! i = ax_bar_std p ! i \<longrightarrow> text_color (ax_texts p ! i) = Red)"
    if i: "i < length ps" for i
  proof -
    have s: "ax_bar_sstr p ! i = fst (ps ! i)" and d: "ax_bar_std p ! i = snd (ps ! i)"
      unfolding f(5,6) using i by simp_all
    have t: "ax_texts p ! i = text_call i (fst (ps ! i)) (snd (ps ! i))
               (fmul (fdiv (fsub (fst (ps ! i)) (snd (ps ! i))) (snd (ps ! i))) (float_of_nat 100))"
      unfolding f(7) using i by simp
    have mem: "ps ! i \<in> set ps" using i by simp
    then have nz: "\<not> is_zero (snd (ps ! i))"
      using f(1) by blast
    from mem obtain b where b: "b \<in> set benchmarks" "paired_ms res b = Some (ps ! i)"
      unfolding ps_def using set_map_filterD by fastforce
    then have "paired_ms res b = Some (fst (ps ! i), snd (ps ! i))" by simp
    from paired_ms_SomeD [OF this] b(1)
    have src: "\<exists>b \<in> set benchmarks. \<exists>g s d ss ds.
               dict_get res b = Some g \<and> find_impls g = (Some s, Some d) \<and>
               dict_get g s = Some ss \<and> dict_get g d = Some ds \<and>
               fst (ps ! i) = fmul (mean ss) (float_of_nat 1000) \<and>
               snd (ps ! i) = fmul (mean ds) (float_of_nat 1000)"
      by blast
    have eq: "\<not> fless (fmul (fdiv (fsub (snd (ps ! i)) (snd (ps ! i))) (snd (ps ! i)))
                 (float_of_nat 100)) (float_of_nat 0)"
      using nz by (rule equal_bars_not_negative)
    have col: "text_color (text_call i x y v) = Green \<longleftrightarrow> fless v (float_of_nat 0)"
      "text_color (text_call i x y v) = Red \<longleftrightarrow> \<not> fless v (float_of_nat 0)"
      "text_x (text_call i x y v) = i"
      "text_s (text_call i x y v) = format_1f v @ ''%''" for x y v
      by (simp_all add: text_call_def)
    show ?thesis
      unfolding s d t col using nz src eq by auto
  qed
  show ?thesis
    unfolding zip len using each ps_def by simp
qed

text \<open>
  Witness for C4: one paired group with means 0.0008015 s and 0.001 s. The bars are
  0.8015 and 1.0, the computed difference is the double just below -19.85, the text is
  \<open>-19.9%\<close> and it is green.
\<close>

theorem annotation_value_and_color_witness:
  "plot_benchmark_group
     [(''results_append_large'',
       [(''sstr_append_large'',
         \<lparr>mean = decimal False 8015 7, stddev = decimal False 0 0,
          min_stat = decimal False 8 4, max_stat = decimal False 9 4\<rparr>),
        (''std_append_large'',
         \<lparr>mean = decimal False 1 3, stddev = decimal False 0 0,
          min_stat = decimal False 1 3, max_stat = decimal False 1 3\<rparr>)])]
     [''results_append_large''] ''String Append Performance'' =
   Inr \<lparr>ax_title = ''String Append Performance'', ax_xticks = [0], ax_xticklabels = [''large''],
        ax_bar_sstr = [Finite False 7219270202674905 (- 53)],
        ax_bar_std = [Finite False 4503599627370496 (- 52)],
        ax_texts = [\<lparr>text_x = 0, text_y = Finite False 4728779608739021 (- 52),
                     text_s = ''-19.9%'', text_color = Green\<rparr>]\<rparr> \<and>
   format_1f (fmul (fdiv (fsub (Finite False 7219270202674905 (- 53))
                               (Finite False 4503599627370496 (- 52)))
                         (Finite False 4503599627370496 (- 52)))
                   (float_of_nat 100)) @ ''%'' = ''-19.9%'' \<and>
   fless (fmul (fdiv (fsub (Finite False 7219270202674905 (- 53))
                           (Finite False 4503599627370496 (- 52)))
                     (Finite False 4503599627370496 (- 52)))
               (float_of_nat 100)) (float_of_nat 0)"
proof -
  let ?ss = "\<lparr>mean = decimal False 8015 7, stddev = decimal False 0 0,
          min_stat = decimal False 8 4, max_stat = decimal False 9 4\<rparr>"
  let ?ds = "\<lparr>mean = decimal False 1 3, stddev = decimal False 0 0,
          min_stat = decimal False 1 3, max_stat = decimal False 1 3\<rparr>"
  let ?g = "[(''sstr_append_large'', ?ss), (''std_append_large'', ?ds)]"
  let ?r = "[(''results_append_large'', ?g)]"
  let ?p = "\<lparr>ax_title = ''String Append Performance'', ax_xticks = [0], ax_xticklabels = [''large''],
        ax_bar_sstr = [Finite False 7219270202674905 (- 53)],
        ax_bar_std = [Finite False 4503599627370496 (- 52)],
        ax_texts = [\<lparr>text_x = 0, text_y = Finite False 4728779608739021 (- 52),
                     text_s = ''-19.9%'', text_color = Green\<rparr>]\<rparr>"
  have g: "dict_get ?r ''results_append_large'' = Some ?g" by (simp add: dict_get_def)
  have f: "find_impls ?g = (Some ''sstr_append_large'', Some ''std_append_large'')"
    by (simp add: find_impls_def dict_keys_def pair_step_def)
  have s: "dict_get ?g ''sstr_append_large'' = Some ?ss" by (simp add: dict_get_def)
  have d: "dict_get ?g ''std_append_large'' = Some ?ds" by (simp add: dict_get_def)
  have x: "fmul (mean ?ss) (float_of_nat 1000) = Finite False 7219270202674905 (- 53)"
    unfolding stats.select_convs float_of_nat_1000 by (simp add: double_eval)
  have y: "fmul (mean ?ds) (float_of_nat 1000) = Finite False 4503599627370496 (- 52)"
    unfolding stats.select_convs by (rule ms_0_001)
  have nz: "\<not> is_zero (Finite False 4503599627370496 (- 52))" by simp
  have l: "x_label ''results_append_large'' = ''large''"
    by (simp add: x_label_def split_max_numeral)
  have tc: "text_call 0 (Finite False 7219270202674905 (- 53)) (Finite False 4503599627370496 (- 52))
              (fmul (fdiv (fsub (Finite False 7219270202674905 (- 53))
                                (Finite False 4503599627370496 (- 52)))
                          (Finite False 4503599627370496 (- 52)))
                    (Finite False 7036874417766400 (- 46))) =
            \<lparr>text_x = 0, text_y = Finite False 4728779608739021 (- 52),
             text_s = ''-19.9%'', text_color = Green\<rparr>"
    unfolding text_call_def double_values by (simp add: double_eval)
  have h: "plot_benchmark_group ?r [''results_append_large''] ''String Append Performance'' = Inr ?p"
    using paired_group_panel [OF g f s d x y nz, of "''String Append Performance''",
        unfolded float_of_nat_100 tc l] .
  note th = annotation_value_and_color [OF h]
  have "0 < length (ax_texts ?p)" by simp
  with th have e: "text_s (ax_texts ?p ! 0) =
      format_1f (fmul (fdiv (fsub (ax_bar_sstr ?p ! 0) (ax_bar_std ?p ! 0)) (ax_bar_std ?p ! 0))
                   (float_of_nat 100)) @ ''%'' \<and>
      (text_color (ax_texts ?p ! 0) = Green \<longleftrightarrow>
         fless (fmul (fdiv (fsub (ax_bar_sstr ?p ! 0) (ax_bar_std ?p ! 0)) (ax_bar_std ?p ! 0))
                  (float_of_nat 100)) (float_of_nat 0))"
    by blast
  have sel: "text_s (ax_texts ?p ! 0) = ''-19.9%''" "text_color (ax_texts ?p ! 0) = Green"
    "ax_bar_sstr ?p ! 0 = Finite False 7219270202674905 (- 53)"
    "ax_bar_std ?p ! 0 = Finite False 4503599627370496 (- 52)"
    by simp_all
  from e have e': "format_1f (fmul (fdiv (fsub (Finite False 7219270202674905 (- 53))
                               (Finite False 4503599627370496 (- 52)))
                         (Finite False 4503599627370496 (- 52)))
                   (float_of_nat 100)) @ ''%'' = ''-19.9%'' \<and>
     fless (fmul (fdiv (fsub (Finite False 7219270202674905 (- 53))
                           (Finite False 4503599627370496 (- 52)))
                     (Finite False 4503599627370496 (- 52)))
               (float_of_nat 100)) (float_of_nat 0)"
    unfolding sel by simp
  from h e' show ?thesis by (intro conjI) (erule conjunct1 conjunct2 | assumption)+
qed

text \<open>
  Claim C5. When a benchmark of the panel is paired and the mean of its std
  implementation is zero, the division of line 94 raises, the loop of lines 93 to 98
  ends in \<^verbatim>\<open>ZeroDivisionError\<close> whenever it is reached, and the procedure never
  returns a panel. The procedure's error is that division by zero when the bar calls
  before the loop pass, in particular when every benchmark of the panel is paired.
\<close>

theorem zero_std_mean_raises:
  assumes "b \<in> set benchmarks" and "dict_get res b = Some g"
    and "find_impls g = (Some s, Some d)" and "dict_get g d = Some ds"
    and "is_zero (mean ds)"
  shows "diff_percent x (fmul (mean ds) (float_of_nat 1000)) = Inl ZeroDivisionError \<and>
         (collect_means res benchmarks ([], [], []) = Inr (xl, sm, dm) \<longrightarrow>
            annotate sm dm [0 ..< length sm] = Inl ZeroDivisionError) \<and>
         (\<exists>e. plot_benchmark_group res benchmarks t = Inl e) \<and>
         (set benchmarks \<subseteq> set (dict_keys res) \<and>
          broadcastable (length benchmarks)
            (length (List.map_filter (paired_ms res) benchmarks)) \<longrightarrow>
            plot_benchmark_group res benchmarks t = Inl ZeroDivisionError) \<and>
         (set benchmarks \<subseteq> set (dict_keys res) \<and>
          (\<forall>b' \<in> set benchmarks. paired_ms res b' \<noteq> None) \<longrightarrow>
            plot_benchmark_group res benchmarks t = Inl ZeroDivisionError)"
proof -
  define ps where "ps = List.map_filter (paired_ms res) benchmarks"
  have zd: "is_zero (fmul (mean ds) (float_of_nat 1000))"
    using assms(5) by (rule is_zero_fmul_1000)
  from collect_means_step_paired [OF assms(2,3), of "[]" "[]" "[]" "[]"]
  obtain ss ds' :: stats where "dict_get g d = Some ds'"
    and p: "paired_ms res b =
              Some (fmul (mean ss) (float_of_nat 1000), fmul (mean ds') (float_of_nat 1000))"
    by blast
  with assms(4) have "paired_ms res b =
      Some (fmul (mean ss) (float_of_nat 1000), fmul (mean ds) (float_of_nat 1000))"
    by simp
  with assms(1)
  have "(fmul (mean ss) (float_of_nat 1000), fmul (mean ds) (float_of_nat 1000)) \<in> set ps"
    unfolding ps_def by (rule in_set_map_filter)
  then have mem: "fmul (mean ds) (float_of_nat 1000) \<in> snd ` set ps" by force
  with zd have z: "\<exists>d \<in> snd ` set ps. is_zero d" by blast
  have c1: "diff_percent x (fmul (mean ds) (float_of_nat 1000)) = Inl ZeroDivisionError"
    using zd by (simp add: diff_percent_def)
  have c2: "annotate sm dm [0 ..< length sm] = Inl ZeroDivisionError"
    if "collect_means res benchmarks ([], [], []) = Inr (xl, sm, dm)"
  proof -
    from collect_means_Inr(3,4) [OF that]
    have sm: "sm = map fst ps" and dm: "dm = map snd ps" by (simp_all add: ps_def)
    have "length sm = length dm" by (simp add: sm dm)
    moreover have "\<exists>d \<in> set dm. is_zero d" using z by (simp add: dm)
    ultimately show ?thesis by (rule annotate_zero)
  qed
  have c4: "plot_benchmark_group res benchmarks t = Inl ZeroDivisionError"
    if "set benchmarks \<subseteq> set (dict_keys res)" "broadcastable (length benchmarks) (length ps)"
    using plot_benchmark_group_char [OF that(1), of t, folded ps_def] that(2) z by simp
  have c5: "plot_benchmark_group res benchmarks t = Inl ZeroDivisionError"
    if "set benchmarks \<subseteq> set (dict_keys res)" "\<forall>b' \<in> set benchmarks. paired_ms res b' \<noteq> None"
  proof -
    have "length ps = length benchmarks"
      unfolding ps_def using that(2) by (rule length_map_filter_all)
    then have "broadcastable (length benchmarks) (length ps)" by (simp add: broadcastable_def)
    with that(1) show ?thesis by (rule c4)
  qed
  have c3: "\<exists>e. plot_benchmark_group res benchmarks t = Inl e"
  proof (cases "set benchmarks \<subseteq> set (dict_keys res)")
    case False
    then show ?thesis using plot_not_keys by blast
  next
    case True
    show ?thesis
    proof (cases "broadcastable (length benchmarks) (length ps)")
      case B: True
      with True show ?thesis using c4 by blast
    next
      case B: False
      then have "plot_benchmark_group res benchmarks t = Inl ValueError"
        using plot_benchmark_group_char [OF True, of t, folded ps_def] by simp
      then show ?thesis by blast
    qed
  qed
  show ?thesis
    using c1 c2 c3 c4 c5 unfolding ps_def by (intro conjI impI) blast+
qed

text \<open>
  Witness for C5: a panel with one group, paired, whose std implementation has mean 0.0.
\<close>

theorem zero_std_mean_raises_witness:
  "''results_format_tiny'' \<in> set [''results_format_tiny''] \<and>
   find_impls
     [(''sstr_format_tiny'',
       \<lparr>mean = decimal False 3 3, stddev = decimal False 0 0,
        min_stat = decimal False 3 3, max_stat = decimal False 3 3\<rparr>),
      (''std_format_tiny'',
       \<lparr>mean = decimal False 0 0, stddev = decimal False 0 0,
        min_stat = decimal False 0 0, max_stat = decimal False 0 0\<rparr>)] =
     (Some ''sstr_format_tiny'', Some ''std_format_tiny'') \<and>
   is_zero (decimal False 0 0) \<and>
   plot_benchmark_group
     [(''results_format_tiny'',
       [(''sstr_format_tiny'',
         \<lparr>mean = decimal False 3 3, stddev = decimal False 0 0,
          min_stat = decimal False 3 3, max_stat = decimal False 3 3\<rparr>),
        (''std_format_tiny'',
         \<lparr>mean = decimal False 0 0, stddev = decimal False 0 0,
          min_stat = decimal False 0 0, max_stat = decimal False 0 0\<rparr>)])]
     [''results_format_tiny''] ''String Format Performance'' = Inl ZeroDivisionError"
proof -
  let ?ss = "\<lparr>mean = decimal False 3 3, stddev = decimal False 0 0,
        min_stat = decimal False 3 3, max_stat = decimal False 3 3\<rparr>"
  let ?z = "\<lparr>mean = decimal False 0 0, stddev = decimal False 0 0,
        min_stat = decimal False 0 0, max_stat = decimal False 0 0\<rparr>"
  let ?g = "[(''sstr_format_tiny'', ?ss), (''std_format_tiny'', ?z)]"
  let ?r = "[(''results_format_tiny'', ?g)]"
  have a: "''results_format_tiny'' \<in> set [''results_format_tiny'']" by simp
  have b: "dict_get ?r ''results_format_tiny'' = Some ?g" by (simp add: dict_get_def)
  have c: "find_impls ?g = (Some ''sstr_format_tiny'', Some ''std_format_tiny'')"
    by (simp add: find_impls_def dict_keys_def pair_step_def)
  have s: "dict_get ?g ''sstr_format_tiny'' = Some ?ss" by (simp add: dict_get_def)
  have d: "dict_get ?g ''std_format_tiny'' = Some ?z" by (simp add: dict_get_def)
  have z: "is_zero (decimal False 0 0)" by (simp add: decimal_def round_ratio_zero)
  have e: "is_zero (mean ?z)" unfolding stats.select_convs by (rule z)
  have k: "set [''results_format_tiny''] \<subseteq> set (dict_keys ?r)" by (simp add: dict_keys_def)
  have q: "\<forall>b' \<in> set [''results_format_tiny'']. paired_ms ?r b' \<noteq> None"
    using paired_ms_Some [OF b c s d] by simp
  from zero_std_mean_raises [OF a b c d e, of _ _ _ _ "''String Format Performance''"] k q
  have "plot_benchmark_group ?r [''results_format_tiny''] ''String Format Performance'' =
          Inl ZeroDivisionError"
    by blast
  with a c z show ?thesis by (intro conjI)
qed




text \<open>
  Claim C6. When the matched files have pairwise distinct name stems, loading gives one
  key per file, equal to the file's stem (base name without extension), holding that
  file's group; and loading the same files in any other enumeration order gives a
  mapping with the same keys and the same groups, hence the same sorted names and the
  same plot.
\<close>

theorem load_keys_are_stems:
  assumes "distinct (map (\<lambda>f. benchmark_name (fst f)) files)"
    and "mset files' = mset files"
  shows "dict_keys (load_benchmark_results files) = map (\<lambda>f. benchmark_name (fst f)) files \<and>
         length (load_benchmark_results files) = length files \<and>
         card (set (dict_keys (load_benchmark_results files))) = length files \<and>
         (\<forall>f \<in> set files.
            dict_get (load_benchmark_results files) (benchmark_name (fst f)) =
              Some (benchmark_data (snd f))) \<and>
         (\<forall>k. dict_get (load_benchmark_results files') k = dict_get (load_benchmark_results files) k) \<and>
         set (dict_keys (load_benchmark_results files')) = set (dict_keys (load_benchmark_results files)) \<and>
         length (load_benchmark_results files') = length files \<and>
         sorted_benchmarks (load_benchmark_results files') = sorted_benchmarks (load_benchmark_results files) \<and>
         create_comparison_plot (load_benchmark_results files') out =
           create_comparison_plot (load_benchmark_results files) out"
proof -
  let ?kv = "\<lambda>f :: result_file. (benchmark_name (fst f), benchmark_data (snd f))"
  let ?k = "\<lambda>f :: result_file. benchmark_name (fst f)"
  have msk: "mset (map ?k files') = mset (map ?k files)" using assms(2) by simp
  have d': "distinct (map ?k files')"
    using assms(1) mset_eq_imp_distinct_iff [OF msk] by simp
  have l: "load_benchmark_results files = map ?kv files" using assms(1) by (rule load_distinct)
  have l': "load_benchmark_results files' = map ?kv files'" using d' by (rule load_distinct)
  have keys: "dict_keys (load_benchmark_results files) = map ?k files"
    by (simp add: l dict_keys_def comp_def)
  have keys': "dict_keys (load_benchmark_results files') = map ?k files'"
    by (simp add: l' dict_keys_def comp_def)
  have len: "length (load_benchmark_results files) = length files" by (simp add: l)
  have len': "length (load_benchmark_results files') = length files"
    using mset_eq_length [OF assms(2)] by (simp add: l')
  have card: "card (set (dict_keys (load_benchmark_results files))) = length files"
    unfolding keys using distinct_card [OF assms(1)] by simp
  have dk: "distinct (map fst (map ?kv files))" using assms(1) by (simp add: comp_def)
  have dk': "distinct (map fst (map ?kv files'))" using d' by (simp add: comp_def)
  have get: "dict_get (load_benchmark_results files) (benchmark_name (fst f)) =
              Some (benchmark_data (snd f))" if "f \<in> set files" for f
  proof -
    have "?kv f \<in> set (map ?kv files)" using that by simp
    then show ?thesis unfolding l dict_get_def using dk by (simp only: map_of_is_SomeI fst_conv snd_conv)
  qed
  have sf: "set files' = set files" using assms(2) by (rule mset_eq_setD)
  have "set (map ?kv files') = set (map ?kv files)"
    by (simp add: sf)
  then have mo: "map_of (map ?kv files') = map_of (map ?kv files)"
    using dk dk' by (simp only: map_of_inject_set)
  then have same: "dict_get (load_benchmark_results files') k = dict_get (load_benchmark_results files) k" for k
    by (simp add: l l' dict_get_def)
  have sets: "set (dict_keys (load_benchmark_results files')) = set (dict_keys (load_benchmark_results files))"
    unfolding keys keys' by (simp add: sf)
  have srt: "sorted_benchmarks (load_benchmark_results files') = sorted_benchmarks (load_benchmark_results files)"
    unfolding sorted_benchmarks_def keys keys' using msk by (rule sort_mset_eq)
  have plot: "create_comparison_plot (load_benchmark_results files') out =
           create_comparison_plot (load_benchmark_results files) out"
    by (rule create_comparison_plot_cong)
       (simp_all add: copy_benchmarks_def append_benchmarks_def format_benchmarks_def srt same)
  show ?thesis
    by (intro conjI ballI allI) (fact keys len card get same sets len' srt plot)+
qed

text \<open>
  Witness for C6: two files in a directory, enumerated in either order.
\<close>

theorem load_keys_are_stems_witness:
  "distinct (map (\<lambda>f. benchmark_name (fst f))
      [(''out/results_copy_small.json'',
        [\<lparr>mean = decimal False 1 3, stddev = decimal False 0 0, min_stat = decimal False 1 3,
          max_stat = decimal False 1 3, command = ''./build/sstr_copy_small''\<rparr>]),
       (''out/results_append_v1.2.json'', [])]) \<and>
   mset [(''out/results_append_v1.2.json'', []),
         (''out/results_copy_small.json'',
          [\<lparr>mean = decimal False 1 3, stddev = decimal False 0 0, min_stat = decimal False 1 3,
          max_stat = decimal False 1 3, command = ''./build/sstr_copy_small''\<rparr>])] =
   mset [(''out/results_copy_small.json'',
        [\<lparr>mean = decimal False 1 3, stddev = decimal False 0 0, min_stat = decimal False 1 3,
          max_stat = decimal False 1 3, command = ''./build/sstr_copy_small''\<rparr>]),
       (''out/results_append_v1.2.json'', [])] \<and>
   dict_keys (load_benchmark_results
      [(''out/results_copy_small.json'',
        [\<lparr>mean = decimal False 1 3, stddev = decimal False 0 0, min_stat = decimal False 1 3,
          max_stat = decimal False 1 3, command = ''./build/sstr_copy_small''\<rparr>]),
       (''out/results_append_v1.2.json'', [])]) = [''results_copy_small'', ''results_append_v1.2''] \<and>
   sorted_benchmarks (load_benchmark_results
      [(''out/results_append_v1.2.json'', []),
         (''out/results_copy_small.json'',
          [\<lparr>mean = decimal False 1 3, stddev = decimal False 0 0, min_stat = decimal False 1 3,
          max_stat = decimal False 1 3, command = ''./build/sstr_copy_small''\<rparr>])]) =
   sorted_benchmarks (load_benchmark_results
      [(''out/results_copy_small.json'',
        [\<lparr>mean = decimal False 1 3, stddev = decimal False 0 0, min_stat = decimal False 1 3,
          max_stat = decimal False 1 3, command = ''./build/sstr_copy_small''\<rparr>]),
       (''out/results_append_v1.2.json'', [])])"
proof -
  let ?e = "\<lparr>mean = decimal False 1 3, stddev = decimal False 0 0, min_stat = decimal False 1 3,
          max_stat = decimal False 1 3, command = ''./build/sstr_copy_small''\<rparr>"
  let ?f = "[(''out/results_copy_small.json'', [?e]), (''out/results_append_v1.2.json'', [])]"
  let ?f' = "[(''out/results_append_v1.2.json'', []), (''out/results_copy_small.json'', [?e])]"
  have n1: "benchmark_name ''out/results_copy_small.json'' = ''results_copy_small''"
    by (simp add: benchmark_name_def basename_def splitext_root_def)
  have n2: "benchmark_name ''out/results_append_v1.2.json'' = ''results_append_v1.2''"
    by (simp add: benchmark_name_def basename_def splitext_root_def)
  have d: "distinct (map (\<lambda>f. benchmark_name (fst f)) ?f)" by (simp add: n1 n2)
  have m: "mset ?f' = mset ?f" by simp
  note th = load_keys_are_stems [OF d m, of "''benchmark_results.png''"]
  from th have k: "dict_keys (load_benchmark_results ?f) = map (\<lambda>f. benchmark_name (fst f)) ?f"
    by (rule conjunct1)
  from th have s: "sorted_benchmarks (load_benchmark_results ?f') = sorted_benchmarks (load_benchmark_results ?f)"
    by blast
  from k have k': "dict_keys (load_benchmark_results ?f) = [''results_copy_small'', ''results_append_v1.2'']"
    by (simp add: n1 n2)
  from d m k' s show ?thesis by blast
qed

text \<open>
  Claim C8. The comparison routine sorts the group names, takes from the sorted list the
  names that start with \<open>results_copy\<close>, with \<open>results_append\<close> and with
  \<open>results_format\<close>, each list in sorted order and no name in two lists, and draws the
  three panels in that order with those lists. A name with none of the three prefixes is
  in no list, and its presence changes nothing: the routine gives the same result, error
  or figure, as without that group.
\<close>

theorem categories_by_prefix:
  "sorted_benchmarks res = sort (dict_keys res) \<and>
   copy_benchmarks res = filter (\<lambda>b. prefix ''results_copy'' b) (sorted_benchmarks res) \<and>
   append_benchmarks res = filter (\<lambda>b. prefix ''results_append'' b) (sorted_benchmarks res) \<and>
   format_benchmarks res = filter (\<lambda>b. prefix ''results_format'' b) (sorted_benchmarks res) \<and>
   sorted (sorted_benchmarks res) \<and> mset (sorted_benchmarks res) = mset (dict_keys res) \<and>
   sorted (copy_benchmarks res) \<and> sorted (append_benchmarks res) \<and> sorted (format_benchmarks res) \<and>
   set (copy_benchmarks res) \<inter> set (append_benchmarks res) = {} \<and>
   set (copy_benchmarks res) \<inter> set (format_benchmarks res) = {} \<and>
   set (append_benchmarks res) \<inter> set (format_benchmarks res) = {} \<and>
   (create_comparison_plot res out = Inr (ps, line) \<longrightarrow>
      map ax_title ps =
        [''String Copy Performance'', ''String Append Performance'', ''String Format Performance''] \<and>
      map ax_xticklabels ps =
        [map x_label (copy_benchmarks res), map x_label (append_benchmarks res),
         map x_label (format_benchmarks res)]) \<and>
   (\<not> prefix ''results_copy'' g \<and> \<not> prefix ''results_append'' g \<and> \<not> prefix ''results_format'' g \<longrightarrow>
      g \<notin> set (copy_benchmarks res) \<and> g \<notin> set (append_benchmarks res) \<and>
      g \<notin> set (format_benchmarks res) \<and>
      create_comparison_plot (dict_set res g v) out = create_comparison_plot res out)"
proof -
  have a: "sorted_benchmarks res = sort (dict_keys res)" by (simp add: sorted_benchmarks_def)
  have b: "copy_benchmarks res = filter (\<lambda>b. prefix ''results_copy'' b) (sorted_benchmarks res)"
    "append_benchmarks res = filter (\<lambda>b. prefix ''results_append'' b) (sorted_benchmarks res)"
    "format_benchmarks res = filter (\<lambda>b. prefix ''results_format'' b) (sorted_benchmarks res)"
    by (simp_all add: copy_benchmarks_def append_benchmarks_def format_benchmarks_def startswith_def)
  have c: "sorted (sorted_benchmarks res)" "mset (sorted_benchmarks res) = mset (dict_keys res)"
    by (simp_all add: a)
  have d: "sorted (copy_benchmarks res)" "sorted (append_benchmarks res)" "sorted (format_benchmarks res)"
    unfolding b using c(1) by (simp_all add: sorted_wrt_filter)
  have e: "set (copy_benchmarks res) \<inter> set (append_benchmarks res) = {}"
    "set (copy_benchmarks res) \<inter> set (format_benchmarks res) = {}"
    "set (append_benchmarks res) \<inter> set (format_benchmarks res) = {}"
    using prefix_exclusive
    by (auto simp: copy_benchmarks_def append_benchmarks_def format_benchmarks_def)
  have f: "map ax_title ps =
        [''String Copy Performance'', ''String Append Performance'', ''String Format Performance''] \<and>
      map ax_xticklabels ps =
        [map x_label (copy_benchmarks res), map x_label (append_benchmarks res),
         map x_label (format_benchmarks res)]"
    if "create_comparison_plot res out = Inr (ps, line)"
    using create_comparison_plot_Inr [OF that] by simp
  have g: "g \<notin> set (copy_benchmarks res) \<and> g \<notin> set (append_benchmarks res) \<and>
      g \<notin> set (format_benchmarks res) \<and>
      create_comparison_plot (dict_set res g v) out = create_comparison_plot res out"
    if "\<not> prefix ''results_copy'' g \<and> \<not> prefix ''results_append'' g \<and> \<not> prefix ''results_format'' g"
  proof -
    from that have n: "\<not> startswith g ''results_copy''" "\<not> startswith g ''results_append''"
      "\<not> startswith g ''results_format''"
      by (simp_all add: startswith_def)
    have "g \<notin> set (copy_benchmarks res)" "g \<notin> set (append_benchmarks res)"
      "g \<notin> set (format_benchmarks res)"
      using n by (simp_all add: copy_benchmarks_def append_benchmarks_def format_benchmarks_def)
    with create_comparison_plot_unmatched [OF n] show ?thesis by simp
  qed
  show ?thesis
    using a b c d e f g by (intro conjI impI) blast+
qed

text \<open>
  Witness for C8: three paired groups inserted out of order and a fourth,
  \<open>results_other_x\<close>, that matches no prefix.
\<close>

theorem categories_by_prefix_witness:
  "\<not> prefix ''results_copy'' ''results_other_x'' \<and>
   \<not> prefix ''results_append'' ''results_other_x'' \<and>
   \<not> prefix ''results_format'' ''results_other_x'' \<and>
   create_comparison_plot
     [(''results_format_large'',
             [(''sstr_format_large'',
               \<lparr>mean = decimal False 1 3, stddev = decimal False 0 0,
                min_stat = decimal False 1 3, max_stat = decimal False 1 3\<rparr>),
              (''std_format_large'',
               \<lparr>mean = decimal False 2 3, stddev = decimal False 0 0,
                min_stat = decimal False 2 3, max_stat = decimal False 2 3\<rparr>)]),
            (''results_copy_small'',
             [(''sstr_copy_small'',
               \<lparr>mean = decimal False 1 3, stddev = decimal False 0 0,
                min_stat = decimal False 1 3, max_stat = decimal False 1 3\<rparr>),
              (''std_copy_small'',
               \<lparr>mean = decimal False 2 3, stddev = decimal False 0 0,
                min_stat = decimal False 2 3, max_stat = decimal False 2 3\<rparr>)]),
            (''results_append_medium'',
             [(''sstr_append_medium'',
               \<lparr>mean = decimal False 2 3, stddev = decimal False 0 0,
                min_stat = decimal False 2 3, max_stat = decimal False 2 3\<rparr>),
              (''std_append_medium'',
               \<lparr>mean = decimal False 1 3, stddev = decimal False 0 0,
                min_stat = decimal False 1 3, max_stat = decimal False 1 3\<rparr>)])]
     ''benchmark_results.png'' =
   Inr ([\<lparr>ax_title = ''String Copy Performance'', ax_xticks = [0], ax_xticklabels = [''small''],
          ax_bar_sstr = [float_of_nat 1], ax_bar_std = [float_of_nat 2],
          ax_texts = [\<lparr>text_x = 0, text_y = fadd (float_of_nat 2) (decimal False 5 2),
                       text_s = ''-50.0%'', text_color = Green\<rparr>]\<rparr>,
         \<lparr>ax_title = ''String Append Performance'', ax_xticks = [0], ax_xticklabels = [''medium''],
          ax_bar_sstr = [float_of_nat 2], ax_bar_std = [float_of_nat 1],
          ax_texts = [\<lparr>text_x = 0, text_y = fadd (float_of_nat 2) (decimal False 5 2),
                       text_s = ''100.0%'', text_color = Red\<rparr>]\<rparr>,
         \<lparr>ax_title = ''String Format Performance'', ax_xticks = [0], ax_xticklabels = [''large''],
          ax_bar_sstr = [float_of_nat 1], ax_bar_std = [float_of_nat 2],
          ax_texts = [\<lparr>text_x = 0, text_y = fadd (float_of_nat 2) (decimal False 5 2),
                       text_s = ''-50.0%'', text_color = Green\<rparr>]\<rparr>],
        ''Plot saved to benchmark_results.png'') \<and>
   create_comparison_plot
     (dict_set
       [(''results_format_large'',
             [(''sstr_format_large'',
               \<lparr>mean = decimal False 1 3, stddev = decimal False 0 0,
                min_stat = decimal False 1 3, max_stat = decimal False 1 3\<rparr>),
              (''std_format_large'',
               \<lparr>mean = decimal False 2 3, stddev = decimal False 0 0,
                min_stat = decimal False 2 3, max_stat = decimal False 2 3\<rparr>)]),
            (''results_copy_small'',
             [(''sstr_copy_small'',
               \<lparr>mean = decimal False 1 3, stddev = decimal False 0 0,
                min_stat = decimal False 1 3, max_stat = decimal False 1 3\<rparr>),
              (''std_copy_small'',
               \<lparr>mean = decimal False 2 3, stddev = decimal False 0 0,
                min_stat = decimal False 2 3, max_stat = decimal False 2 3\<rparr>)]),
            (''results_append_medium'',
             [(''sstr_append_medium'',
               \<lparr>mean = decimal False 2 3, stddev = decimal False 0 0,
                min_stat = decimal False 2 3, max_stat = decimal False 2 3\<rparr>),
              (''std_append_medium'',
               \<lparr>mean = decimal False 1 3, stddev = decimal False 0 0,
                min_stat = decimal False 1 3, max_stat = decimal False 1 3\<rparr>)])]
       ''results_other_x'' [])
     ''benchmark_results.png'' =
   create_comparison_plot
     [(''results_format_large'',
             [(''sstr_format_large'',
               \<lparr>mean = decimal False 1 3, stddev = decimal False 0 0,
                min_stat = decimal False 1 3, max_stat = decimal False 1 3\<rparr>),
              (''std_format_large'',
               \<lparr>mean = decimal False 2 3, stddev = decimal False 0 0,
                min_stat = decimal False 2 3, max_stat = decimal False 2 3\<rparr>)]),
            (''results_copy_small'',
             [(''sstr_copy_small'',
               \<lparr>mean = decimal False 1 3, stddev = decimal False 0 0,
                min_stat = decimal False 1 3, max_stat = decimal False 1 3\<rparr>),
              (''std_copy_small'',
               \<lparr>mean = decimal False 2 3, stddev = decimal False 0 0,
                min_stat = decimal False 2 3, max_stat = decimal False 2 3\<rparr>)]),
            (''results_append_medium'',
             [(''sstr_append_medium'',
               \<lparr>mean = decimal False 2 3, stddev = decimal False 0 0,
                min_stat = decimal False 2 3, max_stat = decimal False 2 3\<rparr>),
              (''std_append_medium'',
               \<lparr>mean = decimal False 1 3, stddev = decimal False 0 0,
                min_stat = decimal False 1 3, max_stat = decimal False 1 3\<rparr>)])]
     ''benchmark_results.png'' \<and>
   [map x_label (copy_benchmarks
     [(''results_format_large'',
             [(''sstr_format_large'',
               \<lparr>mean = decimal False 1 3, stddev = decimal False 0 0,
                min_stat = decimal False 1 3, max_stat = decimal False 1 3\<rparr>),
              (''std_format_large'',
               \<lparr>mean = decimal False 2 3, stddev = decimal False 0 0,
                min_stat = decimal False 2 3, max_stat = decimal False 2 3\<rparr>)]),
            (''results_copy_small'',
             [(''sstr_copy_small'',
               \<lparr>mean = decimal False 1 3, stddev = decimal False 0 0,
                min_stat = decimal False 1 3, max_stat = decimal False 1 3\<rparr>),
              (''std_copy_small'',
               \<lparr>mean = decimal False 2 3, stddev = decimal False 0 0,
                min_stat = decimal False 2 3, max_stat = decimal False 2 3\<rparr>)]),
            (''results_append_medium'',
             [(''sstr_append_medium'',
               \<lparr>mean = decimal False 2 3, stddev = decimal False 0 0,
                min_stat = decimal False 2 3, max_stat = decimal False 2 3\<rparr>),
              (''std_append_medium'',
               \<lparr>mean = decimal False 1 3, stddev = decimal False 0 0,
                min_stat = decimal False 1 3, max_stat = decimal False 1 3\<rparr>)])]),
    map x_label (append_benchmarks
     [(''results_format_large'',
             [(''sstr_format_large'',
               \<lparr>mean = decimal False 1 3, stddev = decimal False 0 0,
                min_stat = decimal False 1 3, max_stat = decimal False 1 3\<rparr>),
              (''std_format_large'',
               \<lparr>mean = decimal False 2 3, stddev = decimal False 0 0,
                min_stat = decimal False 2 3, max_stat = decimal False 2 3\<rparr>)]),
            (''results_copy_small'',
             [(''sstr_copy_small'',
               \<lparr>mean = decimal False 1 3, stddev = decimal False 0 0,
                min_stat = decimal False 1 3, max_stat = decimal False 1 3\<rparr>),
              (''std_copy_small'',
               \<lparr>mean = decimal False 2 3, stddev = decimal False 0 0,
                min_stat = decimal False 2 3, max_stat = decimal False 2 3\<rparr>)]),
            (''results_append_medium'',
             [(''sstr_append_medium'',
               \<lparr>mean = decimal False 2 3, stddev = decimal False 0 0,
                min_stat = decimal False 2 3, max_stat = decimal False 2 3\<rparr>),
              (''std_append_medium'',
               \<lparr>mean = decimal False 1 3, stddev = decimal False 0 0,
                min_stat = decimal False 1 3, max_stat = decimal False 1 3\<rparr>)])]),
    map x_label (format_benchmarks
     [(''results_format_large'',
             [(''sstr_format_large'',
               \<lparr>mean = decimal False 1 3, stddev = decimal False 0 0,
                min_stat = decimal False 1 3, max_stat = decimal False 1 3\<rparr>),
              (''std_format_large'',
               \<lparr>mean = decimal False 2 3, stddev = decimal False 0 0,
                min_stat = decimal False 2 3, max_stat = decimal False 2 3\<rparr>)]),
            (''results_copy_small'',
             [(''sstr_copy_small'',
               \<lparr>mean = decimal False 1 3, stddev = decimal False 0 0,
                min_stat = decimal False 1 3, max_stat = decimal False 1 3\<rparr>),
              (''std_copy_small'',
               \<lparr>mean = decimal False 2 3, stddev = decimal False 0 0,
                min_stat = decimal False 2 3, max_stat = decimal False 2 3\<rparr>)]),
            (''results_append_medium'',
             [(''sstr_append_medium'',
               \<lparr>mean = decimal False 2 3, stddev = decimal False 0 0,
                min_stat = decimal False 2 3, max_stat = decimal False 2 3\<rparr>),
              (''std_append_medium'',
               \<lparr>mean = decimal False 1 3, stddev = decimal False 0 0,
                min_stat = decimal False 1 3, max_stat = decimal False 1 3\<rparr>)])])] =
   [[''small''], [''medium''], [''large'']]"
proof -
  let ?a = "\<lparr>mean = decimal False 1 3, stddev = decimal False 0 0,
           min_stat = decimal False 1 3, max_stat = decimal False 1 3\<rparr>"
  let ?b = "\<lparr>mean = decimal False 2 3, stddev = decimal False 0 0,
           min_stat = decimal False 2 3, max_stat = decimal False 2 3\<rparr>"
  let ?gf = "[(''sstr_format_large'', ?a), (''std_format_large'', ?b)]"
  let ?gc = "[(''sstr_copy_small'', ?a), (''std_copy_small'', ?b)]"
  let ?ga = "[(''sstr_append_medium'', ?b), (''std_append_medium'', ?a)]"
  let ?r = "[(''results_format_large'', ?gf), (''results_copy_small'', ?gc),
             (''results_append_medium'', ?ga)]"
  let ?p0 = "\<lparr>ax_title = ''String Copy Performance'', ax_xticks = [0], ax_xticklabels = [''small''],
          ax_bar_sstr = [float_of_nat 1], ax_bar_std = [float_of_nat 2],
          ax_texts = [\<lparr>text_x = 0, text_y = fadd (float_of_nat 2) (decimal False 5 2),
                       text_s = ''-50.0%'', text_color = Green\<rparr>]\<rparr>"
  let ?p1 = "\<lparr>ax_title = ''String Append Performance'', ax_xticks = [0], ax_xticklabels = [''medium''],
          ax_bar_sstr = [float_of_nat 2], ax_bar_std = [float_of_nat 1],
          ax_texts = [\<lparr>text_x = 0, text_y = fadd (float_of_nat 2) (decimal False 5 2),
                       text_s = ''100.0%'', text_color = Red\<rparr>]\<rparr>"
  let ?p2 = "\<lparr>ax_title = ''String Format Performance'', ax_xticks = [0], ax_xticklabels = [''large''],
          ax_bar_sstr = [float_of_nat 1], ax_bar_std = [float_of_nat 2],
          ax_texts = [\<lparr>text_x = 0, text_y = fadd (float_of_nat 2) (decimal False 5 2),
                       text_s = ''-50.0%'', text_color = Green\<rparr>]\<rparr>"
  have n: "\<not> prefix ''results_copy'' ''results_other_x'' \<and>
     \<not> prefix ''results_append'' ''results_other_x'' \<and>
     \<not> prefix ''results_format'' ''results_other_x''"
    by simp
  have srt: "sort [''results_format_large'', ''results_copy_small'', ''results_append_medium''] =
             [''results_append_medium'', ''results_copy_small'', ''results_format_large'']"
    by code_simp
  have sb: "sorted_benchmarks ?r =
             [''results_append_medium'', ''results_copy_small'', ''results_format_large'']"
    unfolding sorted_benchmarks_def dict_keys_def list.map fst_conv by (rule srt)
  have cb: "copy_benchmarks ?r = [''results_copy_small'']"
    unfolding copy_benchmarks_def sb by (simp add: startswith_def)
  have ab: "append_benchmarks ?r = [''results_append_medium'']"
    unfolding append_benchmarks_def sb by (simp add: startswith_def)
  have fb: "format_benchmarks ?r = [''results_format_large'']"
    unfolding format_benchmarks_def sb by (simp add: startswith_def)
  have z: "\<not> is_zero (Finite False 4503599627370496 (- 51))"
    "\<not> is_zero (Finite False 4503599627370496 (- 52))"
    by simp_all
  have lab: "x_label ''results_copy_small'' = ''small''"
    "x_label ''results_append_medium'' = ''medium''"
    "x_label ''results_format_large'' = ''large''"
    by (simp_all add: x_label_def split_max_numeral)
  have p0: "plot_benchmark_group ?r [''results_copy_small''] ''String Copy Performance'' = Inr ?p0"
  proof -
    have g: "dict_get ?r ''results_copy_small'' = Some ?gc" by (simp add: dict_get_def)
    have f: "find_impls ?gc = (Some ''sstr_copy_small'', Some ''std_copy_small'')"
      by (simp add: find_impls_def dict_keys_def pair_step_def)
    have s: "dict_get ?gc ''sstr_copy_small'' = Some ?a" by (simp add: dict_get_def)
    have d: "dict_get ?gc ''std_copy_small'' = Some ?b" by (simp add: dict_get_def)
    have x: "fmul (mean ?a) (float_of_nat 1000) = Finite False 4503599627370496 (- 52)"
      unfolding stats.select_convs by (rule ms_0_001)
    have y: "fmul (mean ?b) (float_of_nat 1000) = Finite False 4503599627370496 (- 51)"
      unfolding stats.select_convs by (rule ms_0_002)
    show ?thesis
      unfolding float_of_nat_1 float_of_nat_2 decimal_0_05 fadd_2_005
      using paired_group_panel [OF g f s d x y z(1), of "''String Copy Performance''",
          unfolded float_of_nat_100 text_call_1_2 lab] .
  qed
  have p1: "plot_benchmark_group ?r [''results_append_medium''] ''String Append Performance'' = Inr ?p1"
  proof -
    have g: "dict_get ?r ''results_append_medium'' = Some ?ga" by (simp add: dict_get_def)
    have f: "find_impls ?ga = (Some ''sstr_append_medium'', Some ''std_append_medium'')"
      by (simp add: find_impls_def dict_keys_def pair_step_def)
    have s: "dict_get ?ga ''sstr_append_medium'' = Some ?b" by (simp add: dict_get_def)
    have d: "dict_get ?ga ''std_append_medium'' = Some ?a" by (simp add: dict_get_def)
    have x: "fmul (mean ?b) (float_of_nat 1000) = Finite False 4503599627370496 (- 51)"
      unfolding stats.select_convs by (rule ms_0_002)
    have y: "fmul (mean ?a) (float_of_nat 1000) = Finite False 4503599627370496 (- 52)"
      unfolding stats.select_convs by (rule ms_0_001)
    show ?thesis
      unfolding float_of_nat_1 float_of_nat_2 decimal_0_05 fadd_2_005
      using paired_group_panel [OF g f s d x y z(2), of "''String Append Performance''",
          unfolded float_of_nat_100 text_call_2_1 lab] .
  qed
  have p2: "plot_benchmark_group ?r [''results_format_large''] ''String Format Performance'' = Inr ?p2"
  proof -
    have g: "dict_get ?r ''results_format_large'' = Some ?gf" by (simp add: dict_get_def)
    have f: "find_impls ?gf = (Some ''sstr_format_large'', Some ''std_format_large'')"
      by (simp add: find_impls_def dict_keys_def pair_step_def)
    have s: "dict_get ?gf ''sstr_format_large'' = Some ?a" by (simp add: dict_get_def)
    have d: "dict_get ?gf ''std_format_large'' = Some ?b" by (simp add: dict_get_def)
    have x: "fmul (mean ?a) (float_of_nat 1000) = Finite False 4503599627370496 (- 52)"
      unfolding stats.select_convs by (rule ms_0_001)
    have y: "fmul (mean ?b) (float_of_nat 1000) = Finite False 4503599627370496 (- 51)"
      unfolding stats.select_convs by (rule ms_0_002)
    show ?thesis
      unfolding float_of_nat_1 float_of_nat_2 decimal_0_05 fadd_2_005
      using paired_group_panel [OF g f s d x y z(1), of "''String Format Performance''",
          unfolded float_of_nat_100 text_call_1_2 lab] .
  qed
  have h: "create_comparison_plot ?r ''benchmark_results.png'' =
             Inr ([?p0, ?p1, ?p2], ''Plot saved to benchmark_results.png'')"
    unfolding create_comparison_plot_def cb ab fb p0 p1 p2 sum.case by simp
  note th = categories_by_prefix [of ?r "''benchmark_results.png''" "[?p0, ?p1, ?p2]"
      "''Plot saved to benchmark_results.png''" "''results_other_x''" "[]"]
  from th n have inv: "create_comparison_plot (dict_set ?r ''results_other_x'' []) ''benchmark_results.png'' =
      create_comparison_plot ?r ''benchmark_results.png''"
    by blast
  have lab3: "[map x_label (copy_benchmarks ?r), map x_label (append_benchmarks ?r),
         map x_label (format_benchmarks ?r)] = [[''small''], [''medium''], [''large'']]"
    unfolding cb ab fb list.map lab ..
  from n have n1: "\<not> prefix ''results_copy'' ''results_other_x''"
    and n2: "\<not> prefix ''results_append'' ''results_other_x''"
    and n3: "\<not> prefix ''results_format'' ''results_other_x''"
    by (intro conjunct1 [OF n] conjunct1 [OF conjunct2 [OF n]] conjunct2 [OF conjunct2 [OF n]])+
  show ?thesis
    by (intro conjI) (rule n1 n2 n3 h inv lab3)+
qed

end
